theory Spec2Isabelle
  imports Complex_Main "HOL-Library.Char_ord" "HOL-Library.List_Lexorder"
begin

section \<open>Tables, cells and errors\<close>

text \<open>
  The scripts \<^verbatim>\<open>pipeline_ingestao.py\<close> and \<^verbatim>\<open>correcao_automatica.py\<close> transform pandas
  tables. A table is modelled by its column names and its rows, a row by the value it holds
  under each column name. A value is a missing number (\<open>NaN\<close>), a missing timestamp
  (\<open>NaT\<close>), a text, a number, a truth value or a timestamp (nanoseconds since the epoch).
  Texts are Python strings whose code points are below 256, which is where HOL's
  characters end.

  What pandas, numpy and the Python library compute and the repository does not define is
  a parameter of the model (record \<open>lib\<close>): Unicode decomposition, the scalar date parser, the
  printing of numbers and timestamps, and the default (unstable) sort of \<^verbatim>\<open>sort_values\<close>.
  Theorems state what they need of these functions as hypotheses.

  Exceptions are values: a statement that raises yields \<open>Inl\<close> of the error. Modelled are
  the \<^verbatim>\<open>KeyError\<close> of a column that is not there, the \<^verbatim>\<open>TypeError\<close> of an order comparison
  between values of different kinds, and the \<^verbatim>\<open>FileNotFoundError\<close> of the reader. The
  \<^verbatim>\<open>.str\<close> accessor is modelled on text columns, where a value that is not a text yields
  \<open>NaN\<close>; the accessor's refusal of a column of another dtype is outside the model, as are
  failures of the writer. Log lines that only report counts are not modelled.
\<close>

datatype cell = NaN | NaT | Str string | Num rat | Boolean bool | Ts int

type_synonym row = "string \<Rightarrow> cell"

record dataframe =
  columns :: "string list"
  rows :: "row list"

datatype error = KeyError string | TypeError | FileNotFoundError string

record lib =
  nfkd :: "string \<Rightarrow> string"
  parse_datetime :: "cell list \<Rightarrow> cell \<Rightarrow> int option"
  repr :: "cell \<Rightarrow> string"
  sort_by :: "string \<Rightarrow> row list \<Rightarrow> row list"

definition isna :: "cell \<Rightarrow> bool" where
  "isna c = (c = NaN \<or> c = NaT)"

definition notna :: "cell \<Rightarrow> bool" where
  "notna c = (\<not> isna c)"

definition column :: "string \<Rightarrow> dataframe \<Rightarrow> cell list" where
  "column c df = map (\<lambda>r. r c) (rows df)"

definition andThen :: "error + 'a \<Rightarrow> ('a \<Rightarrow> error + 'b) \<Rightarrow> error + 'b" where
  "andThen m f = (case m of Inl e \<Rightarrow> Inl e | Inr x \<Rightarrow> f x)"

text \<open>A sequence of statements, each rebinding \<^verbatim>\<open>df\<close>; the first that raises ends it.\<close>

fun chain :: "('a \<Rightarrow> error + 'a) list \<Rightarrow> 'a \<Rightarrow> error + 'a" where
  "chain [] df = Inr df"
| "chain (f # fs) df = (case f df of Inl e \<Rightarrow> Inl e | Inr df' \<Rightarrow> chain fs df')"

text \<open>The first of the columns \<open>cs\<close>, in the order the code reads them, that the table lacks.\<close>

definition missing :: "string list \<Rightarrow> dataframe \<Rightarrow> string option" where
  "missing cs df = find (\<lambda>c. c \<notin> set (columns df)) cs"

text \<open>
  \<^verbatim>\<open>df[c] = f(df[c])\<close>, unchecked and checked. The new value of a cell may depend on the
  whole column (the date parser infers a format from it).
\<close>

definition set_col :: "string \<Rightarrow> (cell list \<Rightarrow> cell \<Rightarrow> cell) \<Rightarrow> dataframe \<Rightarrow> dataframe" where
  "set_col c f df = df\<lparr>rows := map (\<lambda>r. r(c := f (column c df) (r c))) (rows df)\<rparr>"

definition setitem :: "string \<Rightarrow> (cell list \<Rightarrow> cell \<Rightarrow> cell) \<Rightarrow> dataframe \<Rightarrow> error + dataframe" where
  "setitem c f df = (if c \<in> set (columns df) then Inr (set_col c f df) else Inl (KeyError c))"

text \<open>
  \<^verbatim>\<open>df[mask]\<close>: the mask is computed for every row before any row is selected, so one
  value that cannot be compared raises for the whole table.
\<close>

fun select_where :: "(row \<Rightarrow> error + bool) \<Rightarrow> row list \<Rightarrow> error + row list" where
  "select_where p [] = Inr []"
| "select_where p (r # rs) =
     (case p r of
        Inl e \<Rightarrow> Inl e
      | Inr b \<Rightarrow> (case select_where p rs of
                   Inl e \<Rightarrow> Inl e
                 | Inr rs' \<Rightarrow> Inr (if b then r # rs' else rs')))"

definition boolean_index :: "string list \<Rightarrow> (row \<Rightarrow> error + bool) \<Rightarrow> dataframe \<Rightarrow> error + dataframe" where
  "boolean_index cs p df =
     (case missing cs df of
        Some c \<Rightarrow> Inl (KeyError c)
      | None \<Rightarrow> (case select_where p (rows df) of
                  Inl e \<Rightarrow> Inl e
                | Inr rs \<Rightarrow> Inr (df\<lparr>rows := rs\<rparr>)))"

text \<open>\<^verbatim>\<open>drop_duplicates(subset=key, keep='first')\<close> and \<^verbatim>\<open>keep='last'\<close> on the rows.\<close>

fun keep_first :: "('a \<Rightarrow> 'k) \<Rightarrow> 'a list \<Rightarrow> 'a list" where
  "keep_first k [] = []"
| "keep_first k (x # xs) = x # keep_first k (filter (\<lambda>y. k y \<noteq> k x) xs)"

fun keep_last :: "('a \<Rightarrow> 'k) \<Rightarrow> 'a list \<Rightarrow> 'a list" where
  "keep_last k [] = []"
| "keep_last k (x # xs) = (if k x \<in> k ` set xs then keep_last k xs else x # keep_last k xs)"

definition drop_duplicates :: "string \<Rightarrow> dataframe \<Rightarrow> error + dataframe" where
  "drop_duplicates key df =
     (if key \<in> set (columns df)
      then Inr (df\<lparr>rows := keep_first (\<lambda>r. r key) (rows df)\<rparr>)
      else Inl (KeyError key))"

definition dropna :: "string list \<Rightarrow> dataframe \<Rightarrow> error + dataframe" where
  "dropna cs df =
     (case missing cs df of
        Some c \<Rightarrow> Inl (KeyError c)
      | None \<Rightarrow> Inr (df\<lparr>rows := filter (\<lambda>r. \<forall>c \<in> set cs. notna (r c)) (rows df)\<rparr>))"

section \<open>Values\<close>

text \<open>Python's numbers include its truth values.\<close>

fun num_of :: "cell \<Rightarrow> rat option" where
  "num_of (Num q) = Some q"
| "num_of (Boolean b) = Some (if b then 1 else 0)"
| "num_of _ = None"

text \<open>
  \<^verbatim>\<open>df[c] >= 0\<close> and the like: a missing value compares false, a value that is not a number
  raises.
\<close>

definition compare_num :: "(rat \<Rightarrow> bool) \<Rightarrow> cell \<Rightarrow> error + bool" where
  "compare_num p c =
     (if isna c then Inr False
      else case num_of c of Some q \<Rightarrow> Inr (p q) | None \<Rightarrow> Inl TypeError)"

text \<open>
  \<^verbatim>\<open>a < b\<close> between two columns, value by value; \<open>ca\<close> and \<open>cb\<close> are the two columns.
  Timestamps compare as moments, texts as texts, numbers as numbers, and a missing value
  compares false. A text against a value of a \<^verbatim>\<open>datetime64\<close> column is first parsed as a
  date (the parser sees the text's column): a text that is no date raises. Any other pair
  of kinds raises.
\<close>

fun less_cell :: "lib \<Rightarrow> cell list \<Rightarrow> cell list \<Rightarrow> cell \<Rightarrow> cell \<Rightarrow> error + bool" where
  "less_cell L ca cb (Ts a) (Ts b) = Inr (a < b)"
| "less_cell L ca cb (Str a) (Str b) = Inr (a < b)"
| "less_cell L ca cb (Ts a) (Str s) =
     (case parse_datetime L cb (Str s) of Some b \<Rightarrow> Inr (a < b) | None \<Rightarrow> Inl TypeError)"
| "less_cell L ca cb (Str s) (Ts b) =
     (case parse_datetime L ca (Str s) of Some a \<Rightarrow> Inr (a < b) | None \<Rightarrow> Inl TypeError)"
| "less_cell L ca cb NaT (Str s) =
     (case parse_datetime L cb (Str s) of Some b \<Rightarrow> Inr False | None \<Rightarrow> Inl TypeError)"
| "less_cell L ca cb (Str s) NaT =
     (case parse_datetime L ca (Str s) of Some a \<Rightarrow> Inr False | None \<Rightarrow> Inl TypeError)"
| "less_cell L ca cb a b =
     (if isna a \<or> isna b then Inr False
      else case (num_of a, num_of b) of
             (Some x, Some y) \<Rightarrow> Inr (x < y)
           | _ \<Rightarrow> Inl TypeError)"

definition is_ascii :: "char \<Rightarrow> bool" where
  "is_ascii c = ((of_char c :: nat) < 128)"

text \<open>The class \<^verbatim>\<open>\d\<close> of the regular expressions, on code points below 256.\<close>

definition is_digit :: "char \<Rightarrow> bool" where
  "is_digit c = (c \<in> set ''0123456789'')"

text \<open>The characters \<^verbatim>\<open>str.strip()\<close> removes, on code points below 256.\<close>

definition is_space :: "char \<Rightarrow> bool" where
  "is_space c = ((of_char c :: nat) \<in> {9, 10, 11, 12, 13, 28, 29, 30, 31, 32, 133, 160})"

definition lower_char :: "char \<Rightarrow> char" where
  "lower_char c =
     (let n = (of_char c :: nat)
      in if (65 \<le> n \<and> n \<le> 90) \<or> (192 \<le> n \<and> n \<le> 222 \<and> n \<noteq> 215)
         then char_of (n + 32) else c)"

definition lower :: "string \<Rightarrow> string" where
  "lower s = map lower_char s"

definition strip :: "string \<Rightarrow> string" where
  "strip s = rev (dropWhile is_space (rev (dropWhile is_space s)))"

definition pad_left :: "nat \<Rightarrow> char \<Rightarrow> string \<Rightarrow> string" where
  "pad_left w f s = replicate (w - length s) f @ s"

text \<open>Python's \<^verbatim>\<open>sub in s\<close> on strings.\<close>

fun str_in :: "string \<Rightarrow> string \<Rightarrow> bool" where
  "str_in sub [] = (sub = [])"
| "str_in sub (c # cs) = (take (length sub) (c # cs) = sub \<or> str_in sub cs)"

text \<open>
  \<^verbatim>\<open>re.search(r"[^@]+@[^@]+\.[^@]+", s)\<close>: some \<^verbatim>\<open>@\<close> follows a character that is not
  \<^verbatim>\<open>@\<close>, and the run of characters other than \<^verbatim>\<open>@\<close> after it has a dot that is neither its
  first nor its last character.
\<close>

fun email_search :: "string \<Rightarrow> bool" where
  "email_search (x # y # s) =
     ((x \<noteq> CHR ''@'' \<and> y = CHR ''@''
         \<and> CHR ''.'' \<in> set (butlast (tl (takeWhile (\<lambda>c. c \<noteq> CHR ''@'') s))))
      \<or> email_search (y # s))"
| "email_search _ = False"

text \<open>\<^verbatim>\<open>.astype(str)\<close>: a missing value becomes a text.\<close>

definition astype_str :: "lib \<Rightarrow> cell \<Rightarrow> string" where
  "astype_str L c =
     (case c of
        NaN \<Rightarrow> ''nan''
      | NaT \<Rightarrow> ''NaT''
      | Str s \<Rightarrow> s
      | Boolean b \<Rightarrow> (if b then ''True'' else ''False'')
      | _ \<Rightarrow> repr L c)"

text \<open>
  \<^verbatim>\<open>.astype(str).str.normalize('NFKD').str.encode('ascii', errors='ignore').str.decode('utf-8')\<close>
\<close>

definition ascii_text :: "lib \<Rightarrow> cell \<Rightarrow> cell" where
  "ascii_text L c = Str (filter is_ascii (nfkd L (astype_str L c)))"

text \<open>\<^verbatim>\<open>pd.to_datetime(column, errors='coerce')\<close> on one value of the column.\<close>

definition to_datetime :: "lib \<Rightarrow> cell list \<Rightarrow> cell \<Rightarrow> cell" where
  "to_datetime L col c =
     (case c of
        NaN \<Rightarrow> NaT
      | NaT \<Rightarrow> NaT
      | Ts t \<Rightarrow> Ts t
      | _ \<Rightarrow> (case parse_datetime L col c of None \<Rightarrow> NaT | Some t \<Rightarrow> Ts t))"

text \<open>\<^verbatim>\<open>.astype(bool)\<close>: Python's truth of a value; a missing number is true.\<close>

fun astype_bool :: "cell \<Rightarrow> cell" where
  "astype_bool (Boolean b) = Boolean b"
| "astype_bool (Num q) = Boolean (q \<noteq> 0)"
| "astype_bool (Str s) = Boolean (s \<noteq> [])"
| "astype_bool _ = Boolean True"

text \<open>\<^verbatim>\<open>s.notna() & s.str.contains(r"[^@]+@[^@]+\.[^@]+")\<close> on one value.\<close>

fun valid_email :: "cell \<Rightarrow> bool" where
  "valid_email (Str s) = email_search s"
| "valid_email _ = False"

section \<open>Ingestion: \<^verbatim>\<open>pipeline_ingestao.py\<close>\<close>

definition clean_clientes :: "lib \<Rightarrow> dataframe \<Rightarrow> error + dataframe" where
  "clean_clientes L =
     chain
       [setitem ''nome'' (\<lambda>_. ascii_text L),
        setitem ''cidade'' (\<lambda>_. ascii_text L),
        drop_duplicates ''id_cliente'',
        boolean_index [''email'', ''email''] (\<lambda>r. Inr (valid_email (r ''email''))),
        boolean_index [''nome'', ''telefone'']
          (\<lambda>r. Inr (notna (r ''nome'') \<and> notna (r ''telefone''))),
        setitem ''data_nascimento'' (to_datetime L),
        setitem ''data_cadastro'' (to_datetime L),
        dropna [''data_nascimento'', ''data_cadastro'']]"

definition clean_clientes_lab :: "lib \<Rightarrow> dataframe \<Rightarrow> error + dataframe" where
  "clean_clientes_lab L =
     chain
       [setitem ''nome'' (\<lambda>_. ascii_text L),
        drop_duplicates ''id_cliente'',
        boolean_index [''email'', ''email''] (\<lambda>r. Inr (valid_email (r ''email''))),
        boolean_index [''idade'', ''idade'', ''idade'']
          (\<lambda>r. andThen (compare_num (\<lambda>q. 0 \<le> q) (r ''idade'')) (\<lambda>ge.
                andThen (compare_num (\<lambda>q. q < 120) (r ''idade'')) (\<lambda>lt.
                Inr (notna (r ''idade'') \<and> ge \<and> lt)))),
        boolean_index [''status''] (\<lambda>r. Inr (notna (r ''status''))),
        setitem ''data_cadastro'' (to_datetime L),
        dropna [''data_cadastro'']]"

definition clean_produtos :: "lib \<Rightarrow> dataframe \<Rightarrow> error + dataframe" where
  "clean_produtos L =
     chain
       [setitem ''nome_produto'' (\<lambda>_. ascii_text L),
        setitem ''categoria'' (\<lambda>_. ascii_text L),
        drop_duplicates ''id_produto'',
        boolean_index [''preco''] (\<lambda>r. compare_num (\<lambda>q. 0 \<le> q) (r ''preco'')),
        boolean_index [''estoque''] (\<lambda>r. compare_num (\<lambda>q. 0 \<le> q) (r ''estoque'')),
        setitem ''data_criacao'' (to_datetime L),
        dropna [''data_criacao''],
        setitem ''ativo'' (\<lambda>_. astype_bool)]"

definition clean_vendas :: "lib \<Rightarrow> dataframe \<Rightarrow> cell set \<Rightarrow> cell set \<Rightarrow> error + dataframe" where
  "clean_vendas L df clientes_ids produtos_ids =
     chain
       [drop_duplicates ''id_venda'',
        boolean_index [''id_cliente''] (\<lambda>r. Inr (r ''id_cliente'' \<in> clientes_ids)),
        boolean_index [''id_produto''] (\<lambda>r. Inr (r ''id_produto'' \<in> produtos_ids)),
        boolean_index [''quantidade''] (\<lambda>r. compare_num (\<lambda>q. 0 < q) (r ''quantidade'')),
        boolean_index [''valor_unitario'']
          (\<lambda>r. compare_num (\<lambda>q. 0 \<le> q) (r ''valor_unitario'')),
        boolean_index [''valor_total''] (\<lambda>r. compare_num (\<lambda>q. 0 \<le> q) (r ''valor_total'')),
        setitem ''data_venda'' (to_datetime L),
        dropna [''data_venda'']]
       df"

definition clean_logistica :: "lib \<Rightarrow> dataframe \<Rightarrow> cell set \<Rightarrow> error + dataframe" where
  "clean_logistica L df vendas_ids =
     chain
       [drop_duplicates ''id_entrega'',
        boolean_index [''id_venda''] (\<lambda>r. Inr (r ''id_venda'' \<in> vendas_ids)),
        setitem ''data_envio'' (to_datetime L),
        setitem ''data_entrega_prevista'' (to_datetime L),
        setitem ''data_entrega_real'' (to_datetime L)]
       df"

text \<open>
  The directories are maps from file names to the tables the files hold; the log keeps the
  two messages of the module's \<^verbatim>\<open>try\<close> statement.
\<close>

datatype log_entry = Finalizado | Erro error

record world =
  datasets :: "string \<rightharpoonup> dataframe"
  data_dir :: "string \<rightharpoonup> dataframe"
  data_corrigida :: "string \<rightharpoonup> dataframe"
  logged :: "log_entry list"

definition read_csv :: "(string \<rightharpoonup> dataframe) \<Rightarrow> string \<Rightarrow> error + dataframe" where
  "read_csv dir name = (case dir name of None \<Rightarrow> Inl (FileNotFoundError name) | Some df \<Rightarrow> Inr df)"

text \<open>The body of the \<^verbatim>\<open>try\<close>: the five loads, then the five cleaners.\<close>

definition ingestao ::
  "lib \<Rightarrow> (string \<rightharpoonup> dataframe)
     \<Rightarrow> error + (dataframe \<times> dataframe \<times> dataframe \<times> dataframe \<times> dataframe)" where
  "ingestao L dir =
     andThen (read_csv dir ''clientes.csv'') (\<lambda>clientes.
     andThen (read_csv dir ''clientes_lab.csv'') (\<lambda>clientes_lab.
     andThen (read_csv dir ''produtos.csv'') (\<lambda>produtos.
     andThen (read_csv dir ''vendas.csv'') (\<lambda>vendas.
     andThen (read_csv dir ''logistica.csv'') (\<lambda>logistica.
     andThen (clean_clientes L clientes) (\<lambda>clientes.
     andThen (clean_clientes_lab L clientes_lab) (\<lambda>clientes_lab.
     andThen (clean_produtos L produtos) (\<lambda>produtos.
     andThen (clean_vendas L vendas (set (column ''id_cliente'' clientes))
                (set (column ''id_produto'' produtos))) (\<lambda>vendas.
     andThen (clean_logistica L logistica (set (column ''id_venda'' vendas))) (\<lambda>logistica.
     Inr (clientes, clientes_lab, produtos, vendas, logistica)))))))))))"

definition pipeline_ingestao :: "lib \<Rightarrow> world \<Rightarrow> (error + unit) \<times> world" where
  "pipeline_ingestao L w =
     (case ingestao L (datasets w) of
        Inl e \<Rightarrow> (Inl e, w\<lparr>logged := logged w @ [Erro e]\<rparr>)
      | Inr (clientes, clientes_lab, produtos, vendas, logistica) \<Rightarrow>
          (Inr (),
           w\<lparr>data_dir := (data_dir w)
                 (''clientes.csv'' \<mapsto> clientes,
                  ''clientes_lab.csv'' \<mapsto> clientes_lab,
                  ''produtos.csv'' \<mapsto> produtos,
                  ''vendas.csv'' \<mapsto> vendas,
                  ''logistica.csv'' \<mapsto> logistica),
              logged := logged w @ [Finalizado]\<rparr>))"

section \<open>Correction: \<^verbatim>\<open>correcao_automatica.py\<close>\<close>

text \<open>The telephone and e-mail rewrites of \<^verbatim>\<open>padronizar_dados\<close>, on one value.\<close>

definition telefone_text :: "lib \<Rightarrow> cell \<Rightarrow> cell" where
  "telefone_text L c = Str (pad_left 11 (CHR ''0'') (filter is_digit (astype_str L c)))"

fun email_text :: "cell \<Rightarrow> cell" where
  "email_text (Str s) = Str (strip (lower s))"
| "email_text _ = NaN"

text \<open>One turn of the loop over \<^verbatim>\<open>df.columns\<close>: three tests on the column's name, in order.\<close>

definition padronizar_col :: "lib \<Rightarrow> string \<Rightarrow> dataframe \<Rightarrow> dataframe" where
  "padronizar_col L col df =
     (let df1 = (if str_in ''data'' col then set_col col (to_datetime L) df else df);
          df2 = (if str_in ''telefone'' col then set_col col (\<lambda>_. telefone_text L) df1 else df1)
      in if str_in ''email'' col then set_col col (\<lambda>_. email_text) df2 else df2)"

definition padronizar_dados :: "lib \<Rightarrow> dataframe \<Rightarrow> string \<Rightarrow> dataframe" where
  "padronizar_dados L df tipo = fold (padronizar_col L) (columns df) df"

definition remover_duplicatas :: "lib \<Rightarrow> dataframe \<Rightarrow> string \<Rightarrow> error + dataframe" where
  "remover_duplicatas L df chave =
     (if chave \<in> set (columns df)
      then Inr (df\<lparr>rows := keep_last (\<lambda>r. r chave) (sort_by L chave (rows df))\<rparr>)
      else Inl (KeyError chave))"

definition fillna :: "string \<Rightarrow> cell \<Rightarrow> dataframe \<Rightarrow> error + dataframe" where
  "fillna c v = setitem c (\<lambda>_ x. if isna x then v else x)"

definition preencher_campos_vazios :: "dataframe \<Rightarrow> string \<Rightarrow> error + dataframe" where
  "preencher_campos_vazios df tipo =
     (if tipo = ''clientes'' then
        chain [fillna ''estado'' (Str ''SP''),
               fillna ''cidade'' (Str (''S'' @ [CHR 0xE3] @ ''o Paulo'')),
               fillna ''nome'' (Str ''Desconhecido'')] df
      else if tipo = ''produtos'' then
        chain [fillna ''categoria'' (Str ''Outros''),
               fillna ''ativo'' (Boolean True)] df
      else if tipo = ''vendas'' then
        chain [fillna ''status'' (Str ''Pendente'')] df
      else if tipo = ''logistica'' then
        chain [fillna ''status_entrega'' (Str (''Em tr'' @ [CHR 0xE2] @ ''nsito''))] df
      else Inr df)"

definition getitem :: "dataframe \<Rightarrow> string \<Rightarrow> error + cell list" where
  "getitem df c = (if c \<in> set (columns df) then Inr (column c df) else Inl (KeyError c))"

definition validar_relacionamentos ::
  "dataframe \<Rightarrow> dataframe \<Rightarrow> dataframe \<Rightarrow> error + dataframe" where
  "validar_relacionamentos vendas clientes produtos =
     andThen (getitem vendas ''id_cliente'') (\<lambda>_.
     andThen (getitem clientes ''id_cliente'') (\<lambda>clientes_ids.
     andThen (getitem vendas ''id_produto'') (\<lambda>_.
     andThen (getitem produtos ''id_produto'') (\<lambda>produtos_ids.
     Inr (vendas\<lparr>rows :=
            filter (\<lambda>r. r ''id_cliente'' \<in> set clientes_ids \<and> r ''id_produto'' \<in> set produtos_ids)
              (rows vendas)\<rparr>)))))"

text \<open>
  \<^verbatim>\<open>logistica.loc[mask, "data_entrega_real"] = pd.NaT\<close>: the mask is computed on the table
  as it was, then the rows it marks are rewritten.
\<close>

fun assign_where :: "(row \<Rightarrow> error + bool) \<Rightarrow> (row \<Rightarrow> row) \<Rightarrow> row list \<Rightarrow> error + row list" where
  "assign_where p f [] = Inr []"
| "assign_where p f (r # rs) =
     (case p r of
        Inl e \<Rightarrow> Inl e
      | Inr b \<Rightarrow> (case assign_where p f rs of
                   Inl e \<Rightarrow> Inl e
                 | Inr rs' \<Rightarrow> Inr ((if b then f r else r) # rs')))"

definition corrigir_inconsistencias ::
  "lib \<Rightarrow> dataframe \<Rightarrow> dataframe \<Rightarrow> error + (dataframe \<times> dataframe)" where
  "corrigir_inconsistencias L vendas logistica =
     (case missing [''data_entrega_real'', ''data_envio''] logistica of
        Some c \<Rightarrow> Inl (KeyError c)
      | None \<Rightarrow>
          (case assign_where
                  (\<lambda>r. less_cell L (column ''data_entrega_real'' logistica)
                         (column ''data_envio'' logistica)
                         (r ''data_entrega_real'') (r ''data_envio''))
                  (\<lambda>r. r(''data_entrega_real'' := NaT)) (rows logistica) of
             Inl e \<Rightarrow> Inl e
           | Inr rs \<Rightarrow> Inr (vendas, logistica\<lparr>rows := rs\<rparr>)))"

text \<open>Statements that read and write the directories: a result and the world after it.\<close>

type_synonym 'a io = "world \<Rightarrow> (error + 'a) \<times> world"

definition bind_io :: "'a io \<Rightarrow> ('a \<Rightarrow> 'b io) \<Rightarrow> 'b io" where
  "bind_io m f w = (case m w of (Inl e, w') \<Rightarrow> (Inl e, w') | (Inr x, w') \<Rightarrow> f x w')"

definition lift_io :: "error + 'a \<Rightarrow> 'a io" where
  "lift_io m w = (m, w)"

definition to_csv :: "string \<Rightarrow> dataframe \<Rightarrow> unit io" where
  "to_csv name df w = (Inr (), w\<lparr>data_corrigida := (data_corrigida w)(name \<mapsto> df)\<rparr>)"

text \<open>Python's truth of \<^verbatim>\<open>chave\<close>: neither \<^verbatim>\<open>None\<close> nor the empty string.\<close>

definition processar_dataset :: "lib \<Rightarrow> string \<Rightarrow> string option \<Rightarrow> dataframe io" where
  "processar_dataset L nome chave =
     bind_io (\<lambda>w. (read_csv (data_dir w) (nome @ ''.csv''), w)) (\<lambda>df.
     bind_io (lift_io
       (andThen
          (case chave of
             None \<Rightarrow> Inr (padronizar_dados L df nome)
           | Some k \<Rightarrow> if k = [] then Inr (padronizar_dados L df nome)
                       else remover_duplicatas L (padronizar_dados L df nome) k)
          (\<lambda>df. preencher_campos_vazios df nome))) (\<lambda>df.
     bind_io (to_csv (nome @ ''_corrigido.csv'') df) (\<lambda>_.
     lift_io (Inr df))))"

definition main :: "lib \<Rightarrow> unit io" where
  "main L =
     bind_io (processar_dataset L ''clientes'' (Some ''id_cliente'')) (\<lambda>clientes.
     bind_io (processar_dataset L ''produtos'' (Some ''id_produto'')) (\<lambda>produtos.
     bind_io (processar_dataset L ''vendas'' (Some ''id_venda'')) (\<lambda>vendas.
     bind_io (processar_dataset L ''logistica'' (Some ''id_entrega'')) (\<lambda>logistica.
     bind_io (processar_dataset L ''clientes_lab'' (Some ''id_cliente'')) (\<lambda>clientes_lab.
     bind_io (lift_io (validar_relacionamentos vendas clientes produtos)) (\<lambda>vendas.
     bind_io (lift_io (corrigir_inconsistencias L vendas logistica)) (\<lambda>(vendas, logistica).
     bind_io (to_csv ''vendas_corrigido.csv'' vendas) (\<lambda>_.
     to_csv ''logistica_corrigido.csv'' logistica))))))))"

section \<open>Auxiliary notions and example tables\<close>

text \<open>A value of a \<^verbatim>\<open>datetime64\<close> column: a timestamp or the missing timestamp.\<close>

definition is_datetime :: "cell \<Rightarrow> bool" where
  "is_datetime c = (case c of Ts _ \<Rightarrow> True | NaT \<Rightarrow> True | _ \<Rightarrow> False)"

text \<open>
  What one turn of the loop of \<^verbatim>\<open>padronizar_dados\<close> leaves in a cell of the column it
  visits (lemma \<open>rows_padronizar_col\<close>).
\<close>

definition padronizar_cell :: "lib \<Rightarrow> string \<Rightarrow> cell list \<Rightarrow> cell \<Rightarrow> cell" where
  "padronizar_cell L col ctx v =
     (let v1 = (if str_in ''data'' col then to_datetime L ctx v else v);
          v2 = (if str_in ''telefone'' col then telefone_text L v1 else v1)
      in if str_in ''email'' col then email_text v2 else v2)"

text \<open>
  A library for the examples: it parses the two dates the examples use
  (2024-01-10 and 2024-01-05, midnight UTC, in nanoseconds), decomposes nothing and returns
  a table that is already sorted as it is.
\<close>

definition exemplo_lib :: lib where
  "exemplo_lib =
     \<lparr>nfkd = (\<lambda>s. s),
      parse_datetime = (\<lambda>_ c.
         if c = Str ''2024-01-10'' then Some 1704844800000000000
         else if c = Str ''2024-01-05'' then Some 1704412800000000000
         else None),
      repr = (\<lambda>_. []),
      sort_by = (\<lambda>_ rs. rs)\<rparr>"

text \<open>A delivery shipped on 2024-01-10 and recorded as delivered on 2024-01-05.\<close>

definition entrega_atrasada :: row where
  "entrega_atrasada =
     (\<lambda>_. NaN)
       (''id_entrega'' := Num 1,
        ''id_venda'' := Num 7,
        ''data_envio'' := Ts 1704844800000000000,
        ''data_entrega_prevista'' := Ts 1704844800000000000,
        ''data_entrega_real'' := Ts 1704412800000000000,
        ''status_entrega'' := Str ''Entregue'')"

definition exemplo_logistica :: dataframe where
  "exemplo_logistica =
     \<lparr>columns = [''id_entrega'', ''id_venda'', ''data_envio'', ''data_entrega_prevista'',
                 ''data_entrega_real'', ''status_entrega''],
      rows = [entrega_atrasada]\<rparr>"

text \<open>
  Deliveries that break no rule: delivered on the day of shipping, delivered later, and not
  yet delivered.
\<close>

definition entrega_no_dia :: row where
  "entrega_no_dia =
     entrega_atrasada(''id_entrega'' := Num 2, ''data_entrega_real'' := Ts 1704844800000000000)"

definition entrega_depois :: row where
  "entrega_depois =
     entrega_atrasada(''id_entrega'' := Num 3,
                      ''data_envio'' := Ts 1704412800000000000,
                      ''data_entrega_real'' := Ts 1704844800000000000)"

definition entrega_pendente :: row where
  "entrega_pendente = entrega_atrasada(''id_entrega'' := Num 4, ''data_entrega_real'' := NaT)"

definition exemplo_entregas :: dataframe where
  "exemplo_entregas =
     exemplo_logistica\<lparr>rows := [entrega_atrasada, entrega_no_dia, entrega_depois,
                                entrega_pendente]\<rparr>"

text \<open>A sale to a customer \<^verbatim>\<open>C9\<close>, whom the example customers do not include.\<close>

definition venda_orfa :: row where
  "venda_orfa =
     (\<lambda>_. NaN)
       (''id_venda'' := Num 7,
        ''id_cliente'' := Str ''C9'',
        ''id_produto'' := Str ''P1'',
        ''quantidade'' := Num 2,
        ''valor_unitario'' := Num 10,
        ''valor_total'' := Num 20,
        ''data_venda'' := Str ''2024-01-05'',
        ''status'' := Str ''Pago'')"

definition exemplo_vendas :: dataframe where
  "exemplo_vendas =
     \<lparr>columns = [''id_venda'', ''id_cliente'', ''id_produto'', ''quantidade'',
                 ''valor_unitario'', ''valor_total'', ''data_venda'', ''status''],
      rows = [venda_orfa]\<rparr>"

text \<open>The five raw files, in the order the pipeline loads them.\<close>

definition arquivos :: "string list" where
  "arquivos = [''clientes.csv'', ''clientes_lab.csv'', ''produtos.csv'', ''vendas.csv'', ''logistica.csv'']"

text \<open>
  Two customer rows that share the id \<^verbatim>\<open>C1\<close> and differ in the name; the second has no
  telephone.
\<close>

definition cliente_ana :: row where
  "cliente_ana =
     (\<lambda>_. NaN)
       (''id_cliente'' := Str ''C1'',
        ''nome'' := Str ''Ana'',
        ''email'' := Str ''Ana@Loja.com '',
        ''telefone'' := Str ''(81) 9999-0000'',
        ''data_nascimento'' := Str ''2024-01-05'',
        ''data_cadastro'' := Str ''2024-01-10'',
        ''cidade'' := Str ''Recife'',
        ''estado'' := Str ''PE'')"

definition cliente_bia :: row where
  "cliente_bia = cliente_ana(''nome'' := Str ''Bia'', ''telefone'' := NaN)"

definition exemplo_clientes :: dataframe where
  "exemplo_clientes =
     \<lparr>columns = [''id_cliente'', ''nome'', ''email'', ''telefone'', ''data_nascimento'',
                 ''data_cadastro'', ''cidade'', ''estado''],
      rows = [cliente_ana, cliente_bia]\<rparr>"

text \<open>A world with one raw file only, and an output of an earlier run.\<close>

definition mundo_incompleto :: world where
  "mundo_incompleto =
     \<lparr>datasets = [''clientes.csv'' \<mapsto> exemplo_clientes],
      data_dir = [''vendas.csv'' \<mapsto> exemplo_vendas],
      data_corrigida = Map.empty,
      logged = []\<rparr>"

text \<open>
  Properties of a table that the steps of a cleaner establish and keep: it has given
  columns, every value of a column satisfies a predicate, the values of a column are
  pairwise different.
\<close>

definition has_cols :: "string list \<Rightarrow> dataframe \<Rightarrow> bool" where
  "has_cols cs d = (set cs \<subseteq> set (columns d))"

definition col_all :: "string \<Rightarrow> (cell \<Rightarrow> bool) \<Rightarrow> dataframe \<Rightarrow> bool" where
  "col_all c Q d = (\<forall>r \<in> set (rows d). Q (r c))"

definition unique_key :: "string \<Rightarrow> dataframe \<Rightarrow> bool" where
  "unique_key c d = distinct (column c d)"

definition establishes :: "('a \<Rightarrow> bool) \<Rightarrow> ('a \<Rightarrow> error + 'a) \<Rightarrow> bool" where
  "establishes I f = (\<forall>d d'. f d = Inr d' \<longrightarrow> I d')"

definition preserves :: "('a \<Rightarrow> bool) \<Rightarrow> ('a \<Rightarrow> error + 'a) \<Rightarrow> bool" where
  "preserves I f = (\<forall>d d'. f d = Inr d' \<longrightarrow> I d \<longrightarrow> I d')"

text \<open>
  Raw tables for a complete run. Of the two products the second has a negative price; of
  the two sales the first is \<open>venda_orfa\<close>; of the three deliveries the first belongs to
  that sale, the second has an expected date that is no date, the third was delivered
  before it was shipped.
\<close>

definition exemplo_clientes_lab :: dataframe where
  "exemplo_clientes_lab =
     \<lparr>columns = [''id_cliente'', ''nome'', ''email'', ''idade'', ''status'', ''data_cadastro''],
      rows = [(\<lambda>_. NaN)
                (''id_cliente'' := Str ''L1'',
                 ''nome'' := Str ''Ana'',
                 ''email'' := Str ''ana@lab.org'',
                 ''idade'' := Num 30,
                 ''status'' := Str ''ativo'',
                 ''data_cadastro'' := Str ''2024-01-05'')]\<rparr>"

definition produto_caneta :: row where
  "produto_caneta =
     (\<lambda>_. NaN)
       (''id_produto'' := Str ''P1'',
        ''nome_produto'' := Str ''Caneta'',
        ''categoria'' := Str ''Papelaria'',
        ''preco'' := Num 3,
        ''estoque'' := Num 10,
        ''data_criacao'' := Str ''2024-01-05'',
        ''ativo'' := Boolean True)"

definition produto_negativo :: row where
  "produto_negativo =
     produto_caneta(''id_produto'' := Str ''P2'', ''nome_produto'' := Str ''Lapis'',
                    ''preco'' := Num (-5))"

definition exemplo_produtos :: dataframe where
  "exemplo_produtos =
     \<lparr>columns = [''id_produto'', ''nome_produto'', ''categoria'', ''preco'', ''estoque'',
                 ''data_criacao'', ''ativo''],
      rows = [produto_caneta, produto_negativo]\<rparr>"

definition venda_valida :: row where
  "venda_valida = venda_orfa(''id_venda'' := Num 8, ''id_cliente'' := Str ''C1'')"

definition vendas_brutas :: dataframe where
  "vendas_brutas = exemplo_vendas\<lparr>rows := [venda_orfa, venda_valida]\<rparr>"

definition entrega_orfa :: row where
  "entrega_orfa =
     (\<lambda>_. NaN)
       (''id_entrega'' := Num 1,
        ''id_venda'' := Num 7,
        ''data_envio'' := Str ''2024-01-05'',
        ''data_entrega_prevista'' := Str ''2024-01-10'',
        ''data_entrega_real'' := Str ''2024-01-10'',
        ''status_entrega'' := Str ''Entregue'')"

definition entrega_sem_previsao :: row where
  "entrega_sem_previsao =
     entrega_orfa(''id_entrega'' := Num 2, ''id_venda'' := Num 8,
                  ''data_entrega_prevista'' := Str ''em breve'')"

definition entrega_invertida :: row where
  "entrega_invertida =
     entrega_orfa(''id_entrega'' := Num 3, ''id_venda'' := Num 8,
                  ''data_envio'' := Str ''2024-01-10'',
                  ''data_entrega_real'' := Str ''2024-01-05'')"

definition logistica_bruta :: dataframe where
  "logistica_bruta =
     exemplo_logistica\<lparr>rows := [entrega_orfa, entrega_sem_previsao, entrega_invertida]\<rparr>"

definition pasta :: "string \<rightharpoonup> dataframe" where
  "pasta =
     [''clientes.csv'' \<mapsto> exemplo_clientes,
      ''clientes_lab.csv'' \<mapsto> exemplo_clientes_lab,
      ''produtos.csv'' \<mapsto> exemplo_produtos,
      ''vendas.csv'' \<mapsto> vendas_brutas,
      ''logistica.csv'' \<mapsto> logistica_bruta]"

definition mundo :: world where
  "mundo = \<lparr>datasets = pasta, data_dir = pasta, data_corrigida = Map.empty, logged = []\<rparr>"



text \<open>
  Every row of \<open>d1\<close> comes from a row of \<open>d\<close> with the same key \<open>k\<close>, and the value it has
  in column \<open>c\<close> is related by \<open>G\<close> to the value that row has there.
\<close>

definition traces ::
  "string \<Rightarrow> string \<Rightarrow> (cell \<Rightarrow> cell \<Rightarrow> bool) \<Rightarrow> dataframe \<Rightarrow> dataframe \<Rightarrow> bool" where
  "traces k c G d d1 = (\<forall>r' \<in> set (rows d1). \<exists>r \<in> set (rows d). r' k = r k \<and> G (r c) (r' c))"

text \<open>A raw product table whose second row has a creation date that is no date.\<close>

definition produto_sem_data :: row where
  "produto_sem_data =
     produto_caneta(''id_produto'' := Str ''P3'', ''data_criacao'' := Str ''ontem'')"

definition produtos_datas :: dataframe where
  "produtos_datas = exemplo_produtos\<lparr>rows := [produto_caneta, produto_sem_data]\<rparr>"

section \<open>Facts about the table operations\<close>

lemma select_where_Inr:
  "select_where p rs = Inr rs' \<Longrightarrow> rs' = filter (\<lambda>r. p r = Inr True) rs"
  by (induction rs arbitrary: rs') (auto split: sum.splits if_splits)

lemma assign_where_Inr:
  "assign_where p f rs = Inr rs' \<Longrightarrow> rs' = map (\<lambda>r. if p r = Inr True then f r else r) rs"
  by (induction rs arbitrary: rs') (auto split: sum.splits if_splits)

lemma assign_where_total:
  "\<forall>r \<in> set rs. \<exists>b. p r = Inr b \<Longrightarrow> \<exists>rs'. assign_where p f rs = Inr rs'"
  by (induction rs) (auto split: sum.splits)

lemma less_cell_datetime:
  "is_datetime a \<Longrightarrow> is_datetime b \<Longrightarrow>
   less_cell L ca cb a b = Inr (\<exists>d s. a = Ts d \<and> b = Ts s \<and> d < s)"
  by (cases a; cases b) (auto simp: is_datetime_def isna_def)

section \<open>The repair step\<close>

lemma repair_datetime:
  assumes "''data_entrega_real'' \<in> set (columns logistica)"
      and "''data_envio'' \<in> set (columns logistica)"
      and "\<forall>r \<in> set (rows logistica).
             is_datetime (r ''data_entrega_real'') \<and> is_datetime (r ''data_envio'')"
  shows "corrigir_inconsistencias L vendas logistica
           = Inr (vendas, logistica\<lparr>rows :=
               map (\<lambda>r. if (\<exists>d s. r ''data_entrega_real'' = Ts d \<and> r ''data_envio'' = Ts s \<and> d < s)
                         then r(''data_entrega_real'' := NaT) else r) (rows logistica)\<rparr>)"
proof -
  let ?p = "\<lambda>r. less_cell L (column ''data_entrega_real'' logistica)
                   (column ''data_envio'' logistica) (r ''data_entrega_real'') (r ''data_envio'')"
  let ?q = "\<lambda>r. \<exists>d s. r ''data_entrega_real'' = Ts d \<and> r ''data_envio'' = Ts s \<and> d < s"
  let ?f = "\<lambda>r. r(''data_entrega_real'' := NaT)"
  have p: "\<forall>r \<in> set (rows logistica). ?p r = Inr (?q r)"
    using assms(3) less_cell_datetime by blast
  then have "\<forall>r \<in> set (rows logistica). \<exists>b. ?p r = Inr b" by blast
  then obtain rs where rs: "assign_where ?p ?f (rows logistica) = Inr rs"
    using assign_where_total[of "rows logistica" ?p ?f] by auto
  have m: "missing [''data_entrega_real'', ''data_envio''] logistica = None"
    using assms(1,2) by (simp add: missing_def)
  have "rs = map (\<lambda>r. if ?p r = Inr True then ?f r else r) (rows logistica)"
    using assign_where_Inr[OF rs] .
  also have "\<dots> = map (\<lambda>r. if ?q r then ?f r else r) (rows logistica)"
    using p by (intro map_cong) auto
  finally show ?thesis
    by (simp add: corrigir_inconsistencias_def m rs)
qed

text \<open>
  Claim C2. Repair, not drop: on a logistics table whose two date columns hold timestamps
  (as they do after \<^verbatim>\<open>padronizar_dados\<close>), \<^verbatim>\<open>corrigir_inconsistencias\<close> returns, the table it
  returns has as many rows as before, and a row whose actual delivery date precedes its
  ship date stands at its place with only \<^verbatim>\<open>data_entrega_real\<close> set to the null marker,
  the ship date as it was.
\<close>

theorem repair_keeps_row:
  assumes "''data_entrega_real'' \<in> set (columns logistica)"
      and "''data_envio'' \<in> set (columns logistica)"
      and "\<forall>r \<in> set (rows logistica).
             is_datetime (r ''data_entrega_real'') \<and> is_datetime (r ''data_envio'')"
  shows "\<exists>rs. corrigir_inconsistencias L vendas logistica = Inr (vendas, logistica\<lparr>rows := rs\<rparr>)
           \<and> length rs = length (rows logistica)
           \<and> (\<forall>i < length rs. \<forall>d s.
                 (rows logistica ! i) ''data_entrega_real'' = Ts d
                 \<and> (rows logistica ! i) ''data_envio'' = Ts s \<and> d < s
                 \<longrightarrow> rs ! i = (rows logistica ! i)(''data_entrega_real'' := NaT))"
  using repair_datetime[OF assms, of L vendas] by auto

theorem repair_keeps_row_witness:
  "\<exists>rs. corrigir_inconsistencias exemplo_lib exemplo_vendas exemplo_logistica
           = Inr (exemplo_vendas, exemplo_logistica\<lparr>rows := rs\<rparr>)
      \<and> length rs = 1
      \<and> (rs ! 0) ''data_envio'' = Ts 1704844800000000000
      \<and> (rs ! 0) ''data_entrega_real'' = NaT
      \<and> (rs ! 0) ''id_entrega'' = Num 1"
proof -
  have c: "''data_entrega_real'' \<in> set (columns exemplo_logistica)"
          "''data_envio'' \<in> set (columns exemplo_logistica)"
    by (simp_all add: exemplo_logistica_def)
  have d: "\<forall>r \<in> set (rows exemplo_logistica).
             is_datetime (r ''data_entrega_real'') \<and> is_datetime (r ''data_envio'')"
    by (simp add: exemplo_logistica_def entrega_atrasada_def is_datetime_def)
  obtain rs where rs:
    "corrigir_inconsistencias exemplo_lib exemplo_vendas exemplo_logistica
       = Inr (exemplo_vendas, exemplo_logistica\<lparr>rows := rs\<rparr>)"
    "length rs = length (rows exemplo_logistica)"
    "\<forall>i < length rs. \<forall>d s.
        (rows exemplo_logistica ! i) ''data_entrega_real'' = Ts d
        \<and> (rows exemplo_logistica ! i) ''data_envio'' = Ts s \<and> d < s
        \<longrightarrow> rs ! i = (rows exemplo_logistica ! i)(''data_entrega_real'' := NaT)"
    using repair_keeps_row[OF c d, of exemplo_lib exemplo_vendas] by blast
  have l: "length rs = 1"
    using rs(2) by (simp add: exemplo_logistica_def)
  have "rs ! 0 = entrega_atrasada(''data_entrega_real'' := NaT)"
    using rs(3) l by (simp add: exemplo_logistica_def entrega_atrasada_def)
  then show ?thesis
    using rs(1) l by (auto simp: entrega_atrasada_def)
qed

text \<open>
  Claim C9. Frame of the repair step. Whenever \<^verbatim>\<open>corrigir_inconsistencias\<close> returns, the
  sales table is the one it was given, the logistics table has the same columns and the same
  number of rows, every value outside column \<^verbatim>\<open>data_entrega_real\<close> is what it was, and a
  value of that column is what it was or the null marker. On a logistics table whose two
  date columns hold timestamps it returns, and every row that does not violate the rule (its
  delivery date is missing, or its ship date is missing, or the delivery is not before the
  shipping) is the row it was, at its place.
\<close>

theorem repair_frame:
  "(corrigir_inconsistencias L vendas logistica = Inr (vendas', logistica') \<longrightarrow>
      vendas' = vendas \<and> columns logistica' = columns logistica
      \<and> length (rows logistica') = length (rows logistica)
      \<and> (\<forall>i < length (rows logistica). \<forall>c. c \<noteq> ''data_entrega_real''
            \<longrightarrow> (rows logistica' ! i) c = (rows logistica ! i) c)
      \<and> (\<forall>i < length (rows logistica).
            (rows logistica' ! i) ''data_entrega_real'' = (rows logistica ! i) ''data_entrega_real''
            \<or> (rows logistica' ! i) ''data_entrega_real'' = NaT))
   \<and> (''data_entrega_real'' \<in> set (columns logistica) \<and> ''data_envio'' \<in> set (columns logistica)
       \<and> (\<forall>r \<in> set (rows logistica).
             is_datetime (r ''data_entrega_real'') \<and> is_datetime (r ''data_envio''))
      \<longrightarrow>
      (\<exists>rs. corrigir_inconsistencias L vendas logistica = Inr (vendas, logistica\<lparr>rows := rs\<rparr>)
         \<and> length rs = length (rows logistica)
         \<and> (\<forall>i < length rs.
               \<not> (\<exists>d s. (rows logistica ! i) ''data_entrega_real'' = Ts d
                        \<and> (rows logistica ! i) ''data_envio'' = Ts s \<and> d < s)
               \<longrightarrow> rs ! i = rows logistica ! i)))"
proof (rule conjI)
  show "corrigir_inconsistencias L vendas logistica = Inr (vendas', logistica') \<longrightarrow>
      vendas' = vendas \<and> columns logistica' = columns logistica
      \<and> length (rows logistica') = length (rows logistica)
      \<and> (\<forall>i < length (rows logistica). \<forall>c. c \<noteq> ''data_entrega_real''
            \<longrightarrow> (rows logistica' ! i) c = (rows logistica ! i) c)
      \<and> (\<forall>i < length (rows logistica).
            (rows logistica' ! i) ''data_entrega_real'' = (rows logistica ! i) ''data_entrega_real''
            \<or> (rows logistica' ! i) ''data_entrega_real'' = NaT)"
    by (auto simp: corrigir_inconsistencias_def split: option.splits sum.splits
             dest!: assign_where_Inr)
next
  show "''data_entrega_real'' \<in> set (columns logistica) \<and> ''data_envio'' \<in> set (columns logistica)
       \<and> (\<forall>r \<in> set (rows logistica).
             is_datetime (r ''data_entrega_real'') \<and> is_datetime (r ''data_envio''))
      \<longrightarrow>
      (\<exists>rs. corrigir_inconsistencias L vendas logistica = Inr (vendas, logistica\<lparr>rows := rs\<rparr>)
         \<and> length rs = length (rows logistica)
         \<and> (\<forall>i < length rs.
               \<not> (\<exists>d s. (rows logistica ! i) ''data_entrega_real'' = Ts d
                        \<and> (rows logistica ! i) ''data_envio'' = Ts s \<and> d < s)
               \<longrightarrow> rs ! i = rows logistica ! i))"
  proof
    assume a: "''data_entrega_real'' \<in> set (columns logistica) \<and> ''data_envio'' \<in> set (columns logistica)
       \<and> (\<forall>r \<in> set (rows logistica).
             is_datetime (r ''data_entrega_real'') \<and> is_datetime (r ''data_envio''))"
    show "\<exists>rs. corrigir_inconsistencias L vendas logistica = Inr (vendas, logistica\<lparr>rows := rs\<rparr>)
         \<and> length rs = length (rows logistica)
         \<and> (\<forall>i < length rs.
               \<not> (\<exists>d s. (rows logistica ! i) ''data_entrega_real'' = Ts d
                        \<and> (rows logistica ! i) ''data_envio'' = Ts s \<and> d < s)
               \<longrightarrow> rs ! i = rows logistica ! i)"
    proof -
      let ?q = "\<lambda>r. \<exists>d s. r ''data_entrega_real'' = Ts d \<and> r ''data_envio'' = Ts s \<and> d < s"
      let ?rs = "map (\<lambda>r. if ?q r then r(''data_entrega_real'' := NaT) else r) (rows logistica)"
      have e: "corrigir_inconsistencias L vendas logistica = Inr (vendas, logistica\<lparr>rows := ?rs\<rparr>)"
        using repair_datetime[of logistica L vendas] a by blast
      have n: "length ?rs = length (rows logistica)" by simp
      have u: "\<forall>i < length ?rs. \<not> ?q (rows logistica ! i) \<longrightarrow> ?rs ! i = rows logistica ! i"
        by auto
      show ?thesis
        using e n u by blast
    qed
  qed
qed

theorem repair_frame_witness:
  "\<exists>rs. corrigir_inconsistencias exemplo_lib exemplo_vendas exemplo_entregas
           = Inr (exemplo_vendas, exemplo_entregas\<lparr>rows := rs\<rparr>)
      \<and> length rs = 4
      \<and> rs ! 1 = entrega_no_dia \<and> rs ! 2 = entrega_depois \<and> rs ! 3 = entrega_pendente
      \<and> entrega_no_dia ''data_entrega_real'' = Ts 1704844800000000000
      \<and> entrega_no_dia ''data_envio'' = Ts 1704844800000000000
      \<and> entrega_depois ''data_entrega_real'' = Ts 1704844800000000000
      \<and> entrega_depois ''data_envio'' = Ts 1704412800000000000
      \<and> entrega_pendente ''data_entrega_real'' = NaT"
proof -
  have r: "rows exemplo_entregas
             = [entrega_atrasada, entrega_no_dia, entrega_depois, entrega_pendente]"
    by (simp add: exemplo_entregas_def)
  have v: "entrega_no_dia ''data_entrega_real'' = Ts 1704844800000000000"
          "entrega_no_dia ''data_envio'' = Ts 1704844800000000000"
          "entrega_depois ''data_entrega_real'' = Ts 1704844800000000000"
          "entrega_depois ''data_envio'' = Ts 1704412800000000000"
          "entrega_pendente ''data_entrega_real'' = NaT"
          "entrega_pendente ''data_envio'' = Ts 1704844800000000000"
          "entrega_atrasada ''data_entrega_real'' = Ts 1704412800000000000"
          "entrega_atrasada ''data_envio'' = Ts 1704844800000000000"
    by (simp_all add: entrega_no_dia_def entrega_depois_def entrega_pendente_def
          entrega_atrasada_def)
  have c: "''data_entrega_real'' \<in> set (columns exemplo_entregas)
         \<and> ''data_envio'' \<in> set (columns exemplo_entregas)
         \<and> (\<forall>r \<in> set (rows exemplo_entregas).
               is_datetime (r ''data_entrega_real'') \<and> is_datetime (r ''data_envio''))"
    by (simp add: r v is_datetime_def) (simp add: exemplo_entregas_def exemplo_logistica_def)
  obtain rs where rs:
    "corrigir_inconsistencias exemplo_lib exemplo_vendas exemplo_entregas
       = Inr (exemplo_vendas, exemplo_entregas\<lparr>rows := rs\<rparr>)"
    "length rs = length (rows exemplo_entregas)"
    "\<forall>i < length rs.
        \<not> (\<exists>d s. (rows exemplo_entregas ! i) ''data_entrega_real'' = Ts d
                 \<and> (rows exemplo_entregas ! i) ''data_envio'' = Ts s \<and> d < s)
        \<longrightarrow> rs ! i = rows exemplo_entregas ! i"
    using repair_frame[of exemplo_lib exemplo_vendas exemplo_entregas] c by blast
  have l: "length rs = 4" using rs(2) by (simp add: r)
  have "rs ! 1 = entrega_no_dia"
    using rs(3)[rule_format, of 1] l by (simp add: r v)
  moreover have "rs ! 2 = entrega_depois"
    using rs(3)[rule_format, of 2] l by (simp add: r v)
  moreover have "rs ! 3 = entrega_pendente"
    using rs(3)[rule_format, of 3] l by (simp add: r v)
  ultimately show ?thesis
    using rs(1) l v by auto
qed

section \<open>Loading\<close>

lemma ingestao_missing:
  assumes "name \<in> set arquivos" "dir name = None"
  shows "\<exists>n \<in> set arquivos. dir n = None \<and> ingestao L dir = Inl (FileNotFoundError n)"
  using assms
  by (cases "dir ''clientes.csv''"; cases "dir ''clientes_lab.csv''"; cases "dir ''produtos.csv''";
      cases "dir ''vendas.csv''"; cases "dir ''logistica.csv''")
     (auto simp: ingestao_def read_csv_def andThen_def arquivos_def)

text \<open>
  Claim C8. A missing raw file is fatal and leaves no output: when one of the five raw files
  is absent, the run ends with the \<^verbatim>\<open>FileNotFoundError\<close> of an absent file, the error is
  logged once and raised again, and the output directory is what it was before the run; no
  table is written, whichever files were present and loaded before the failure.
\<close>

theorem missing_file_aborts:
  assumes "name \<in> set arquivos" "datasets w name = None"
  shows "\<exists>n \<in> set arquivos. datasets w n = None
           \<and> pipeline_ingestao L w
               = (Inl (FileNotFoundError n), w\<lparr>logged := logged w @ [Erro (FileNotFoundError n)]\<rparr>)
           \<and> data_dir (snd (pipeline_ingestao L w)) = data_dir w"
proof -
  obtain n where "n \<in> set arquivos" "datasets w n = None" "ingestao L (datasets w) = Inl (FileNotFoundError n)"
    using ingestao_missing[of name "datasets w" L] assms by blast
  then show ?thesis by (auto simp: pipeline_ingestao_def)
qed

theorem missing_file_aborts_witness:
  "datasets mundo_incompleto ''clientes.csv'' = Some exemplo_clientes
   \<and> datasets mundo_incompleto ''produtos.csv'' = None
   \<and> (\<exists>n. fst (pipeline_ingestao exemplo_lib mundo_incompleto) = Inl (FileNotFoundError n)
          \<and> logged (snd (pipeline_ingestao exemplo_lib mundo_incompleto)) = [Erro (FileNotFoundError n)])
   \<and> data_dir (snd (pipeline_ingestao exemplo_lib mundo_incompleto)) = [''vendas.csv'' \<mapsto> exemplo_vendas]"
proof -
  have a: "''produtos.csv'' \<in> set arquivos" by (simp add: arquivos_def)
  have b: "datasets mundo_incompleto ''produtos.csv'' = None" by (simp add: mundo_incompleto_def)
  have c: "datasets mundo_incompleto ''clientes.csv'' = Some exemplo_clientes"
    by (simp add: mundo_incompleto_def)
  have d: "data_dir mundo_incompleto = [''vendas.csv'' \<mapsto> exemplo_vendas]"
    and e: "logged mundo_incompleto = []"
    by (simp_all add: mundo_incompleto_def)
  show ?thesis
    using missing_file_aborts[OF a b, of exemplo_lib] b c d e by auto
qed

section \<open>Standardisation at the correction stage\<close>

lemma columns_set_col [simp]: "columns (set_col c f df) = columns df"
  by (simp add: set_col_def)

lemma rows_set_col: "rows (set_col c f df) = map (\<lambda>r. r(c := f (column c df) (r c))) (rows df)"
  by (simp add: set_col_def)

lemma column_set_col_same: "column c (set_col c f df) = map (f (column c df)) (column c df)"
  by (simp add: set_col_def column_def)

lemma column_set_col_other: "c' \<noteq> c \<Longrightarrow> column c' (set_col c f df) = column c' df"
  by (simp add: set_col_def column_def)

lemma columns_padronizar_col [simp]: "columns (padronizar_col L c df) = columns df"
  by (simp add: padronizar_col_def Let_def)

lemma rows_padronizar_col:
  "rows (padronizar_col L c df) = map (\<lambda>r. r(c := padronizar_cell L c (column c df) (r c))) (rows df)"
  by (simp add: padronizar_col_def padronizar_cell_def Let_def rows_set_col column_set_col_same
        o_def)

lemma columns_fold_padronizar [simp]: "columns (fold (padronizar_col L) cs df) = columns df"
  by (induction cs arbitrary: df) simp_all

lemma rows_fold_padronizar:
  "distinct cs \<Longrightarrow>
   rows (fold (padronizar_col L) cs df)
     = map (\<lambda>r c. if c \<in> set cs then padronizar_cell L c (column c df) (r c) else r c) (rows df)"
proof (induction cs rule: rev_induct)
  case Nil
  then show ?case by simp
next
  case (snoc c cs)
  let ?d = "fold (padronizar_col L) cs df"
  have ih: "rows ?d = map (\<lambda>r c. if c \<in> set cs then padronizar_cell L c (column c df) (r c) else r c) (rows df)"
    using snoc by simp
  have c: "c \<notin> set cs" using snoc.prems by simp
  have col: "column c ?d = column c df"
    using c by (simp add: column_def ih)
  show ?case
    by (simp add: rows_padronizar_col col ih c fun_eq_iff)
qed

lemma rows_padronizar_dados:
  "distinct (columns df) \<Longrightarrow>
   rows (padronizar_dados L df tipo)
     = map (\<lambda>r c. if c \<in> set (columns df) then padronizar_cell L c (column c df) (r c) else r c)
         (rows df)"
  by (simp add: padronizar_dados_def rows_fold_padronizar)

lemma telefone_text_digits:
  "\<exists>s. telefone_text L v = Str s \<and> (\<forall>ch \<in> set s. is_digit ch) \<and> 11 \<le> length s"
  by (auto simp: telefone_text_def pad_left_def is_digit_def)

lemma digit_code: "is_digit ch \<Longrightarrow> (of_char ch :: nat) < 65"
  by (auto simp: is_digit_def)

lemma lower_char_digit: "is_digit ch \<Longrightarrow> lower_char ch = ch"
  using digit_code[of ch] by (simp add: lower_char_def Let_def)

lemma lower_digits: "\<forall>ch \<in> set s. is_digit ch \<Longrightarrow> lower s = s"
  by (induction s) (simp_all add: lower_def lower_char_digit)

lemma dropWhile_none: "\<forall>x \<in> set xs. \<not> P x \<Longrightarrow> dropWhile P xs = xs"
  by (cases xs) auto

lemma strip_no_space: "\<forall>ch \<in> set s. \<not> is_space ch \<Longrightarrow> strip s = s"
  by (simp add: strip_def dropWhile_none)

lemma zeros_11: "replicate 11 (CHR ''0'') = ''00000000000''"
  by (simp add: eval_nat_numeral)

lemma digit_not_space: "is_digit ch \<Longrightarrow> \<not> is_space ch"
  by (auto simp: is_digit_def is_space_def)

lemma strip_lower_digits:
  "\<forall>ch \<in> set s. is_digit ch \<Longrightarrow> strip (lower s) = s"
  by (simp add: lower_digits strip_no_space digit_not_space)

lemma padronizar_cell_telefone:
  assumes "str_in ''telefone'' col"
  shows "\<exists>s. padronizar_cell L col ctx v = Str s \<and> (\<forall>ch \<in> set s. is_digit ch) \<and> 11 \<le> length s"
proof -
  let ?v1 = "if str_in ''data'' col then to_datetime L ctx v else v"
  obtain s where s: "telefone_text L ?v1 = Str s" "\<forall>ch \<in> set s. is_digit ch" "11 \<le> length s"
    using telefone_text_digits by blast
  then show ?thesis
    using assms by (simp add: padronizar_cell_def Let_def strip_lower_digits)
qed

lemma padronizar_cell_telefone_plain:
  assumes "str_in ''telefone'' col" "\<not> str_in ''data'' col"
  shows "padronizar_cell L col ctx v = telefone_text L v"
proof -
  obtain s where s: "telefone_text L v = Str s" "\<forall>ch \<in> set s. is_digit ch"
    using telefone_text_digits by blast
  then show ?thesis
    using assms by (simp add: padronizar_cell_def Let_def strip_lower_digits)
qed

lemma telefone_text_isna: "isna v \<Longrightarrow> telefone_text L v = Str ''00000000000''"
  by (auto simp: isna_def telefone_text_def astype_str_def pad_left_def is_digit_def zeros_11)

lemma to_datetime_isna: "isna v \<Longrightarrow> to_datetime L ctx v = NaT"
  by (auto simp: isna_def to_datetime_def)

lemma padronizar_cell_telefone_isna:
  assumes "str_in ''telefone'' col" "isna v"
  shows "padronizar_cell L col ctx v = Str ''00000000000''"
proof -
  have "telefone_text L (if str_in ''data'' col then to_datetime L ctx v else v) = Str ''00000000000''"
    using assms(2) by (auto simp: telefone_text_isna to_datetime_isna isna_def)
  moreover have "\<forall>ch \<in> set ''00000000000''. is_digit ch" by (simp add: is_digit_def)
  ultimately show ?thesis
    using assms(1) by (simp add: padronizar_cell_def Let_def strip_lower_digits)
qed

lemma length_padronizar_dados [simp]: "length (rows (padronizar_dados L df tipo)) = length (rows df)"
proof -
  have "length (rows (fold (padronizar_col L) cs d)) = length (rows d)" for cs d
    by (induction cs arbitrary: d) (simp_all add: rows_padronizar_col)
  then show ?thesis by (simp add: padronizar_dados_def)
qed

text \<open>
  Claim C10. Telephones at the correction stage: in a table whose column names are distinct,
  \<^verbatim>\<open>padronizar_dados\<close> keeps every row and leaves in every cell of a column whose name
  contains \<^verbatim>\<open>telefone\<close> a text of digits only, of length at least 11; a missing value
  becomes \<^verbatim>\<open>00000000000\<close>; and (unless the name also contains \<^verbatim>\<open>data\<close>) the text is the
  digits of the value's text, padded with zeros on the left to 11 characters and never
  truncated.
\<close>

theorem telefone_normalizado:
  assumes "distinct (columns df)" "col \<in> set (columns df)" "str_in ''telefone'' col"
      and "i < length (rows df)"
  shows "length (rows (padronizar_dados L df tipo)) = length (rows df)
       \<and> (\<exists>s. (rows (padronizar_dados L df tipo) ! i) col = Str s
              \<and> (\<forall>ch \<in> set s. is_digit ch) \<and> 11 \<le> length s
              \<and> (isna ((rows df ! i) col) \<longrightarrow> s = ''00000000000'')
              \<and> (\<not> str_in ''data'' col \<longrightarrow>
                   s = pad_left 11 (CHR ''0'') (filter is_digit (astype_str L ((rows df ! i) col)))))"
proof -
  let ?v = "(rows df ! i) col"
  have c: "(rows (padronizar_dados L df tipo) ! i) col = padronizar_cell L col (column col df) ?v"
    using assms by (simp add: rows_padronizar_dados)
  obtain s where s: "padronizar_cell L col (column col df) ?v = Str s"
      "\<forall>ch \<in> set s. is_digit ch" "11 \<le> length s"
    using padronizar_cell_telefone[OF assms(3)] by blast
  have n: "isna ?v \<longrightarrow> s = ''00000000000''"
    using padronizar_cell_telefone_isna[OF assms(3), of ?v L "column col df"] s(1) by auto
  have p: "\<not> str_in ''data'' col \<longrightarrow>
             s = pad_left 11 (CHR ''0'') (filter is_digit (astype_str L ?v))"
    using padronizar_cell_telefone_plain[OF assms(3), of L "column col df" ?v] s(1)
    by (auto simp: telefone_text_def)
  show ?thesis using c s n p by simp
qed

theorem telefone_normalizado_witness:
  "(rows (padronizar_dados exemplo_lib exemplo_clientes ''clientes'') ! 0) ''telefone''
     = Str ''08199990000''
   \<and> (rows (padronizar_dados exemplo_lib exemplo_clientes ''clientes'') ! 1) ''telefone''
     = Str ''00000000000''
   \<and> length (rows (padronizar_dados exemplo_lib exemplo_clientes ''clientes'')) = 2"
proof -
  let ?out = "padronizar_dados exemplo_lib exemplo_clientes ''clientes''"
  have d: "distinct (columns exemplo_clientes)"
    and c: "''telefone'' \<in> set (columns exemplo_clientes)"
    and l: "length (rows exemplo_clientes) = 2"
    by (simp_all add: exemplo_clientes_def)
  have i0: "0 < length (rows exemplo_clientes)" and i1: "1 < length (rows exemplo_clientes)"
    by (simp_all add: l)
  have t: "str_in ''telefone'' ''telefone''" and n: "\<not> str_in ''data'' ''telefone''"
    by simp_all
  have v0: "astype_str exemplo_lib ((rows exemplo_clientes ! 0) ''telefone'') = ''(81) 9999-0000''"
    and v1: "isna ((rows exemplo_clientes ! 1) ''telefone'')"
    by (simp_all add: exemplo_clientes_def cliente_ana_def cliente_bia_def astype_str_def isna_def)
  have p: "pad_left 11 (CHR ''0'') (filter is_digit ''(81) 9999-0000'') = ''08199990000''"
    by (simp add: pad_left_def is_digit_def)
  obtain s0 where s0: "(rows ?out ! 0) ''telefone'' = Str s0"
      "\<not> str_in ''data'' ''telefone'' \<longrightarrow>
         s0 = pad_left 11 (CHR ''0'')
                (filter is_digit (astype_str exemplo_lib ((rows exemplo_clientes ! 0) ''telefone'')))"
    using telefone_normalizado[OF d c t i0, of exemplo_lib "''clientes''"] by blast
  obtain s1 where s1: "(rows ?out ! 1) ''telefone'' = Str s1"
      "isna ((rows exemplo_clientes ! 1) ''telefone'') \<longrightarrow> s1 = ''00000000000''"
    using telefone_normalizado[OF d c t i1, of exemplo_lib "''clientes''"] by blast
  have "s0 = ''08199990000''"
    using s0(2) n by (simp only: v0 p simp_thms)
  moreover have "s1 = ''00000000000''"
    using s1(2) v1 by blast
  moreover have "length (rows ?out) = 2"
    using telefone_normalizado[OF d c t i0, of exemplo_lib "''clientes''"] l by simp
  ultimately show ?thesis using s0(1) s1(1) by simp
qed

section \<open>Deduplication\<close>

lemma set_keep_first: "set (keep_first k xs) \<subseteq> set xs"
  by (induction k xs rule: keep_first.induct) auto

lemma distinct_keep_first: "distinct (map k (keep_first k xs))"
proof (induction k xs rule: keep_first.induct)
  case (1 k)
  then show ?case by simp
next
  case (2 k x xs)
  have "set (keep_first k (filter (\<lambda>y. k y \<noteq> k x) xs)) \<subseteq> set (filter (\<lambda>y. k y \<noteq> k x) xs)"
    by (rule set_keep_first)
  then have "k x \<notin> k ` set (keep_first k (filter (\<lambda>y. k y \<noteq> k x) xs))" by auto
  with 2 show ?case by simp
qed



lemma keep_first_distinct_id: "distinct (map k xs) \<Longrightarrow> keep_first k xs = xs"
proof (induction xs)
  case Nil
  then show ?case by simp
next
  case (Cons x xs)
  then have "k x \<notin> k ` set xs" by simp
  then have "\<forall>y \<in> set xs. k y \<noteq> k x" by (metis imageI)
  then have "filter (\<lambda>y. k y \<noteq> k x) xs = xs" by (simp add: filter_id_conv)
  with Cons show ?case by simp
qed

lemma keys_keep_first: "k ` set (keep_first k xs) = k ` set xs"
proof (induction k xs rule: keep_first.induct)
  case (1 k)
  then show ?case by simp
next
  case (2 k x xs)
  then show ?case by auto
qed

lemma set_keep_last: "set (keep_last k xs) \<subseteq> set xs"
  by (induction xs) auto

lemma keys_keep_last: "k ` set (keep_last k xs) = k ` set xs"
  by (induction xs) auto

lemma distinct_keep_last: "distinct (map k (keep_last k xs))"
  using set_keep_last[of k] by (induction xs) auto

lemma keep_last_distinct_id: "distinct (map k xs) \<Longrightarrow> keep_last k xs = xs"
  by (induction xs) auto


lemma find_snoc:
  "find P (ys @ [y]) = (case find P ys of Some z \<Rightarrow> Some z | None \<Rightarrow> if P y then Some y else None)"
  by (induction ys) auto

lemma find_keep_last: "find (\<lambda>y. k y = v) (keep_last k xs) = find (\<lambda>y. k y = v) (rev xs)"
proof (induction xs)
  case Nil
  then show ?case by simp
next
  case (Cons x xs)
  have none: "find (\<lambda>y. k y = v) (rev xs) = None \<longleftrightarrow> v \<notin> k ` set xs"
    by (auto simp: find_None_iff)
  show ?case
  proof (cases "k x \<in> k ` set xs")
    case True
    then show ?thesis using Cons none by (auto simp: find_snoc split: option.splits)
  next
    case False
    then show ?thesis using Cons none by (auto simp: find_snoc split: option.splits)
  qed
qed


lemma remover_duplicatas_sorted:
  assumes "remover_duplicatas L df key = Inr df2"
  shows "columns df2 = columns df \<and> distinct (column key df2)
      \<and> (\<forall>v. find (\<lambda>r. r key = v) (rows df2)
                = find (\<lambda>r. r key = v) (rev (sort_by L key (rows df))))
      \<and> set (rows df2) \<subseteq> set (sort_by L key (rows df))
      \<and> (\<lambda>r. r key) ` set (rows df2) = (\<lambda>r. r key) ` set (sort_by L key (rows df))"
proof -
  have r: "rows df2 = keep_last (\<lambda>r. r key) (sort_by L key (rows df))"
    and c: "columns df2 = columns df"
    using assms(1) by (auto simp: remover_duplicatas_def split: if_splits)
  show ?thesis
    using c set_keep_last[of "\<lambda>r. r key" "sort_by L key (rows df)"]
    by (simp add: r column_def distinct_keep_last find_keep_last keys_keep_last)
qed





section \<open>What the steps of a cleaner establish and keep\<close>

lemma chain_nth:
  assumes "chain fs d = Inr d'" "i < length fs" "establishes I (fs ! i)"
      and "list_all (preserves I) (drop (Suc i) fs)"
  shows "I d'"
  using assms
proof (induction fs arbitrary: d i)
  case Nil
  then show ?case by simp
next
  case (Cons f fs)
  from Cons.prems(1) obtain d1 where d1: "f d = Inr d1" "chain fs d1 = Inr d'"
    by (auto split: sum.splits)
  show ?case
  proof (cases i)
    case 0
    have "I d1" using Cons.prems(3) d1(1) 0 by (auto simp: establishes_def)
    moreover have "list_all (preserves I) fs" using Cons.prems(4) 0 by simp
    ultimately show ?thesis using d1(2)
    proof (induction fs arbitrary: d1)
      case Nil
      then show ?case by simp
    next
      case (Cons g gs)
      then show ?case by (auto simp: preserves_def split: sum.splits)
    qed
  next
    case (Suc j)
    then show ?thesis using Cons.IH[of d1 j] Cons.prems d1 by simp
  qed
qed

lemma chain_preserves:
  "chain fs d = Inr d' \<Longrightarrow> list_all (preserves I) fs \<Longrightarrow> I d \<Longrightarrow> I d'"
  by (induction fs arbitrary: d) (auto simp: preserves_def split: sum.splits)

lemma missing_None: "missing cs d = None \<longleftrightarrow> has_cols cs d"
  by (auto simp: missing_def has_cols_def find_None_iff)

lemma setitem_Inr: "setitem c f d = Inr d' \<longleftrightarrow> c \<in> set (columns d) \<and> d' = set_col c f d"
  by (auto simp: setitem_def)

lemma boolean_index_Inr:
  "boolean_index cs p d = Inr d' \<Longrightarrow>
     has_cols cs d \<and> d' = d\<lparr>rows := filter (\<lambda>r. p r = Inr True) (rows d)\<rparr>"
  by (auto simp: boolean_index_def missing_None[symmetric] split: option.splits sum.splits
           dest: select_where_Inr)

lemma drop_duplicates_Inr:
  "drop_duplicates c d = Inr d' \<longleftrightarrow>
     c \<in> set (columns d) \<and> d' = d\<lparr>rows := keep_first (\<lambda>r. r c) (rows d)\<rparr>"
  by (auto simp: drop_duplicates_def)

lemma dropna_Inr:
  "dropna cs d = Inr d' \<longleftrightarrow>
     has_cols cs d \<and> d' = d\<lparr>rows := filter (\<lambda>r. \<forall>c \<in> set cs. notna (r c)) (rows d)\<rparr>"
  by (auto simp: dropna_def missing_None[symmetric] split: option.splits)

text \<open>Columns.\<close>

lemma est_cols_setitem: "establishes (has_cols [c]) (setitem c f)"
  by (auto simp: establishes_def setitem_Inr has_cols_def set_col_def)

lemma est_cols_boolean_index: "set cs' \<subseteq> set cs \<Longrightarrow> establishes (has_cols cs') (boolean_index cs p)"
  by (auto simp: establishes_def has_cols_def subset_iff dest!: boolean_index_Inr)

lemma est_cols_drop_duplicates: "establishes (has_cols [c]) (drop_duplicates c)"
  by (auto simp: establishes_def drop_duplicates_Inr has_cols_def)

lemma est_cols_dropna: "set cs' \<subseteq> set cs \<Longrightarrow> establishes (has_cols cs') (dropna cs)"
  by (auto simp: establishes_def dropna_Inr has_cols_def subset_iff)

lemma pres_cols_setitem: "preserves (has_cols cs) (setitem c f)"
  by (auto simp: preserves_def setitem_Inr has_cols_def set_col_def)

lemma pres_cols_boolean_index: "preserves (has_cols cs') (boolean_index cs p)"
  by (auto simp: preserves_def has_cols_def dest!: boolean_index_Inr)

lemma pres_cols_drop_duplicates: "preserves (has_cols cs) (drop_duplicates c)"
  by (auto simp: preserves_def drop_duplicates_Inr has_cols_def)

lemma pres_cols_dropna: "preserves (has_cols cs') (dropna cs)"
  by (auto simp: preserves_def dropna_Inr has_cols_def)

lemmas pres_cols = pres_cols_setitem pres_cols_boolean_index pres_cols_drop_duplicates
  pres_cols_dropna

text \<open>Values of a column.\<close>

lemma est_col_setitem: "(\<And>ctx v. Q (f ctx v)) \<Longrightarrow> establishes (col_all c Q) (setitem c f)"
  by (auto simp: establishes_def setitem_Inr col_all_def set_col_def)


lemma est_col_dropna: "c \<in> set cs \<Longrightarrow> establishes (col_all c notna) (dropna cs)"
  by (auto simp: establishes_def dropna_Inr col_all_def)






text \<open>Keys.\<close>

lemma est_key_drop_duplicates: "establishes (unique_key c) (drop_duplicates c)"
  by (auto simp: establishes_def drop_duplicates_Inr unique_key_def column_def
        distinct_keep_first)

lemma pres_key_setitem: "c' \<noteq> c \<Longrightarrow> preserves (unique_key c) (setitem c' f)"
  by (auto simp: preserves_def setitem_Inr unique_key_def column_def set_col_def o_def)

lemma pres_key_boolean_index: "preserves (unique_key c) (boolean_index cs p)"
  by (auto simp: preserves_def unique_key_def column_def distinct_map_filter
           dest!: boolean_index_Inr)

lemma pres_key_dropna: "preserves (unique_key c) (dropna cs)"
  by (auto simp: preserves_def dropna_Inr unique_key_def column_def distinct_map_filter)

lemmas pres_key = pres_key_setitem pres_key_boolean_index pres_key_dropna

text \<open>Steps that change nothing.\<close>

lemma setitem_fix:
  "has_cols [c] d \<Longrightarrow> col_all c (\<lambda>v. \<forall>ctx. f ctx v = v) d \<Longrightarrow> setitem c f d = Inr d"
  by (auto simp: setitem_def has_cols_def col_all_def set_col_def map_idI)

lemma select_where_all: "\<forall>r \<in> set rs. p r = Inr True \<Longrightarrow> select_where p rs = Inr rs"
  by (induction rs) auto

lemma boolean_index_fix:
  "has_cols cs d \<Longrightarrow> \<forall>r \<in> set (rows d). p r = Inr True \<Longrightarrow> boolean_index cs p d = Inr d"
  by (simp add: boolean_index_def missing_None[symmetric] select_where_all)

lemma drop_duplicates_fix:
  "has_cols [c] d \<Longrightarrow> unique_key c d \<Longrightarrow> drop_duplicates c d = Inr d"
  by (simp add: drop_duplicates_def has_cols_def unique_key_def column_def
        keep_first_distinct_id)

lemma dropna_fix:
  "has_cols cs d \<Longrightarrow> \<forall>c \<in> set cs. col_all c notna d \<Longrightarrow> dropna cs d = Inr d"
  by (auto simp: dropna_def missing_None[symmetric] col_all_def filter_id_conv)

section \<open>The stages as wholes\<close>

lemma unique_clean_clientes: "clean_clientes L d = Inr d' \<Longrightarrow> unique_key ''id_cliente'' d'"
  unfolding clean_clientes_def
  by (erule chain_nth[where i="Suc (Suc 0)"]) (simp_all add: est_key_drop_duplicates pres_key)

lemma unique_clean_clientes_lab: "clean_clientes_lab L d = Inr d' \<Longrightarrow> unique_key ''id_cliente'' d'"
  unfolding clean_clientes_lab_def
  by (erule chain_nth[where i="Suc 0"]) (simp_all add: est_key_drop_duplicates pres_key)

lemma unique_clean_produtos: "clean_produtos L d = Inr d' \<Longrightarrow> unique_key ''id_produto'' d'"
  unfolding clean_produtos_def
  by (erule chain_nth[where i="Suc (Suc 0)"]) (simp_all add: est_key_drop_duplicates pres_key)

lemma unique_clean_vendas: "clean_vendas L d cs ps = Inr d' \<Longrightarrow> unique_key ''id_venda'' d'"
  unfolding clean_vendas_def
  by (erule chain_nth[where i=0]) (simp_all add: est_key_drop_duplicates pres_key)

lemma unique_clean_logistica: "clean_logistica L d vs = Inr d' \<Longrightarrow> unique_key ''id_entrega'' d'"
  unfolding clean_logistica_def
  by (erule chain_nth[where i=0]) (simp_all add: est_key_drop_duplicates pres_key)

lemma ingestao_Inr:
  assumes "ingestao L dir = Inr (c, cl, p, v, l)"
  shows "\<exists>c0 cl0 p0 v0 l0.
           dir ''clientes.csv'' = Some c0 \<and> dir ''clientes_lab.csv'' = Some cl0
         \<and> dir ''produtos.csv'' = Some p0 \<and> dir ''vendas.csv'' = Some v0
         \<and> dir ''logistica.csv'' = Some l0
         \<and> clean_clientes L c0 = Inr c \<and> clean_clientes_lab L cl0 = Inr cl
         \<and> clean_produtos L p0 = Inr p
         \<and> clean_vendas L v0 (set (column ''id_cliente'' c)) (set (column ''id_produto'' p)) = Inr v
         \<and> clean_logistica L l0 (set (column ''id_venda'' v)) = Inr l"
  using assms
  by (auto simp: ingestao_def andThen_def read_csv_def split: option.splits sum.splits)

lemma pipeline_ingestao_Inr:
  assumes "pipeline_ingestao L w = (Inr (), w')"
  shows "\<exists>c cl p v l. ingestao L (datasets w) = Inr (c, cl, p, v, l)
           \<and> data_dir w' ''clientes.csv'' = Some c
           \<and> data_dir w' ''clientes_lab.csv'' = Some cl
           \<and> data_dir w' ''produtos.csv'' = Some p
           \<and> data_dir w' ''vendas.csv'' = Some v
           \<and> data_dir w' ''logistica.csv'' = Some l"
  using assms
  by (auto simp: pipeline_ingestao_def split: sum.splits)
lemma repair_frame_vendas:
  "corrigir_inconsistencias L vendas logistica = Inr (vendas', logistica') \<Longrightarrow> vendas' = vendas"
  by (auto simp: corrigir_inconsistencias_def split: option.splits sum.splits)

lemma bind_io_Inr:
  "bind_io m f w = (Inr y, w') \<longleftrightarrow> (\<exists>x w1. m w = (Inr x, w1) \<and> f x w1 = (Inr y, w'))"
  by (auto simp: bind_io_def split: prod.splits sum.splits)

lemma lift_io_eq: "lift_io m w = (r, w') \<longleftrightarrow> m = r \<and> w' = w"
  by (auto simp: lift_io_def)

lemma processar_Inr:
  assumes "processar_dataset L nome (Some k) w = (Inr df, w')" "k \<noteq> []"
  shows "\<exists>df0 df1. data_dir w (nome @ ''.csv'') = Some df0
           \<and> remover_duplicatas L (padronizar_dados L df0 nome) k = Inr df1
           \<and> preencher_campos_vazios df1 nome = Inr df
           \<and> w' = w\<lparr>data_corrigida := (data_corrigida w)(nome @ ''_corrigido.csv'' \<mapsto> df)\<rparr>"
  using assms
  by (auto simp: processar_dataset_def bind_io_Inr lift_io_eq to_csv_def read_csv_def
        andThen_def split: option.splits sum.splits)

lemma main_Inr:
  assumes "main L w = (Inr (), w')"
  shows "\<exists>c p v0 l0 cl v l w1 w2 w3 w4 w5.
           processar_dataset L ''clientes'' (Some ''id_cliente'') w = (Inr c, w1)
         \<and> processar_dataset L ''produtos'' (Some ''id_produto'') w1 = (Inr p, w2)
         \<and> processar_dataset L ''vendas'' (Some ''id_venda'') w2 = (Inr v0, w3)
         \<and> processar_dataset L ''logistica'' (Some ''id_entrega'') w3 = (Inr l0, w4)
         \<and> processar_dataset L ''clientes_lab'' (Some ''id_cliente'') w4 = (Inr cl, w5)
         \<and> validar_relacionamentos v0 c p = Inr v
         \<and> corrigir_inconsistencias L v l0 = Inr (v, l)
         \<and> w' = w5\<lparr>data_corrigida := (data_corrigida w5)
                     (''vendas_corrigido.csv'' \<mapsto> v, ''logistica_corrigido.csv'' \<mapsto> l)\<rparr>"
proof -
  from assms obtain c p v0 l0 cl v vl w1 w2 w3 w4 w5 where
    a: "processar_dataset L ''clientes'' (Some ''id_cliente'') w = (Inr c, w1)"
       "processar_dataset L ''produtos'' (Some ''id_produto'') w1 = (Inr p, w2)"
       "processar_dataset L ''vendas'' (Some ''id_venda'') w2 = (Inr v0, w3)"
       "processar_dataset L ''logistica'' (Some ''id_entrega'') w3 = (Inr l0, w4)"
       "processar_dataset L ''clientes_lab'' (Some ''id_cliente'') w4 = (Inr cl, w5)"
       "validar_relacionamentos v0 c p = Inr v"
       "corrigir_inconsistencias L v l0 = Inr vl"
       "(case vl of (vendas, logistica) \<Rightarrow>
           bind_io (to_csv ''vendas_corrigido.csv'' vendas)
             (\<lambda>_. to_csv ''logistica_corrigido.csv'' logistica)) w5 = (Inr (), w')"
    unfolding main_def bind_io_Inr lift_io_eq by blast
  obtain v' l where vl: "vl = (v', l)" by (cases vl)
  have "v' = v" using a(7) vl repair_frame_vendas by blast
  then show ?thesis
    using a vl by (auto simp: bind_io_Inr to_csv_def)
qed
lemma pres_column_setitem: "c \<noteq> k \<Longrightarrow> preserves (\<lambda>d. column k d = xs) (setitem c f)"
  by (auto simp: preserves_def setitem_Inr column_def set_col_def)

lemma pres_columns_setitem: "preserves (\<lambda>d. columns d = cs) (setitem c f)"
  by (auto simp: preserves_def setitem_Inr set_col_def)

lemma preencher_column:
  assumes "preencher_campos_vazios df tipo = Inr df'"
      and "k \<notin> set [''estado'', ''cidade'', ''nome'', ''categoria'', ''ativo'', ''status'',
                     ''status_entrega'']"
  shows "column k df' = column k df"
proof -
  have p: "\<And>c v. c \<in> set [''estado'', ''cidade'', ''nome'', ''categoria'', ''ativo'', ''status'',
                     ''status_entrega''] \<Longrightarrow> preserves (\<lambda>d. column k d = column k df) (fillna c v)"
    using assms(2) unfolding fillna_def by (intro pres_column_setitem) auto
  have *: "\<And>fs. chain fs df = Inr df' \<Longrightarrow>
             list_all (preserves (\<lambda>d. column k d = column k df)) fs \<Longrightarrow> column k df' = column k df"
    using chain_preserves[where I="\<lambda>d. column k d = column k df"] by blast
  show ?thesis
    using assms(1) unfolding preencher_campos_vazios_def
    by (auto split: if_splits simp del: chain.simps elim!: * simp: p)
qed

lemma preencher_columns:
  assumes "preencher_campos_vazios df tipo = Inr df'"
  shows "columns df' = columns df"
proof -
  have *: "\<And>fs. chain fs df = Inr df' \<Longrightarrow>
             list_all (preserves (\<lambda>d. columns d = columns df)) fs \<Longrightarrow> columns df' = columns df"
    using chain_preserves[where I="\<lambda>d. columns d = columns df"] by blast
  show ?thesis
    using assms unfolding preencher_campos_vazios_def fillna_def
    by (auto split: if_splits simp del: chain.simps elim!: * simp: pres_columns_setitem)
qed

lemma processar_unique:
  assumes "processar_dataset L nome (Some k) w = (Inr df, w')" "k \<noteq> []"
      and "k \<notin> set [''estado'', ''cidade'', ''nome'', ''categoria'', ''ativo'', ''status'',
                     ''status_entrega'']"
  shows "distinct (column k df)"
proof -
  obtain df0 df1 where
    a: "remover_duplicatas L (padronizar_dados L df0 nome) k = Inr df1"
       "preencher_campos_vazios df1 nome = Inr df"
    using processar_Inr[OF assms(1,2)] by blast
  have "distinct (column k df1)" using remover_duplicatas_sorted[OF a(1)] by simp
  then show ?thesis using preencher_column[OF a(2) assms(3)] by simp
qed

lemma validar_Inr:
  assumes "validar_relacionamentos vendas clientes produtos = Inr v"
  shows "v = vendas\<lparr>rows :=
               filter (\<lambda>r. r ''id_cliente'' \<in> set (column ''id_cliente'' clientes)
                          \<and> r ''id_produto'' \<in> set (column ''id_produto'' produtos))
                 (rows vendas)\<rparr>"
  using assms
  by (auto simp: validar_relacionamentos_def andThen_def getitem_def split: if_splits)

lemma corrigir_column:
  assumes "corrigir_inconsistencias L vendas logistica = Inr (vendas', logistica')"
      and "c \<noteq> ''data_entrega_real''"
  shows "column c logistica' = column c logistica"
  using assms
  by (auto simp: corrigir_inconsistencias_def column_def split: option.splits sum.splits
           dest!: assign_where_Inr)

section \<open>The example run\<close>

lemmas eval_defs = setitem_def set_col_def column_def drop_duplicates_def boolean_index_def
  missing_def dropna_def ascii_text_def astype_str_def to_datetime_def is_ascii_def
  notna_def isna_def compare_num_def andThen_def exemplo_lib_def read_csv_def

lemmas exemplo_defs = pasta_def exemplo_clientes_def cliente_ana_def cliente_bia_def
  exemplo_clientes_lab_def exemplo_produtos_def produto_caneta_def produto_negativo_def
  vendas_brutas_def exemplo_vendas_def venda_valida_def venda_orfa_def
  logistica_bruta_def exemplo_logistica_def entrega_orfa_def entrega_sem_previsao_def
  entrega_invertida_def entrega_atrasada_def

lemma ingestao_exemplo: "\<exists>t. ingestao exemplo_lib pasta = Inr t"
  by (simp add: ingestao_def clean_clientes_def clean_clientes_lab_def clean_produtos_def
        clean_vendas_def clean_logistica_def exemplo_defs eval_defs)

lemma pipeline_exemplo: "fst (pipeline_ingestao exemplo_lib mundo) = Inr ()"
proof -
  obtain t where "ingestao exemplo_lib (datasets mundo) = Inr t"
    using ingestao_exemplo by (auto simp: mundo_def)
  then show ?thesis
    by (cases t) (simp add: pipeline_ingestao_def)
qed

lemma main_exemplo_case:
  "(case main exemplo_lib mundo of
      (r, w') \<Rightarrow>
        r = Inr ()
        \<and> map_option (column ''id_venda'') (data_corrigida w' ''logistica_corrigido.csv'')
            = Some [Num 7, Num 8, Num 8]
        \<and> map_option (column ''id_venda'') (data_corrigida w' ''vendas_corrigido.csv'')
            = Some [Num 8])"
  by (simp add: main_def processar_dataset_def bind_io_def lift_io_def to_csv_def mundo_def
        padronizar_dados_def padronizar_col_def telefone_text_def pad_left_def is_digit_def
        lower_def lower_char_def strip_def is_space_def remover_duplicatas_def
        preencher_campos_vazios_def fillna_def validar_relacionamentos_def getitem_def
        corrigir_inconsistencias_def exemplo_defs eval_defs)

lemma main_exemplo:
  "fst (main exemplo_lib mundo) = Inr ()"
  "map_option (column ''id_venda'')
     (data_corrigida (snd (main exemplo_lib mundo)) ''logistica_corrigido.csv'')
     = Some [Num 7, Num 8, Num 8]"
  "map_option (column ''id_venda'')
     (data_corrigida (snd (main exemplo_lib mundo)) ''vendas_corrigido.csv'')
     = Some [Num 8]"
  using main_exemplo_case by (auto split: prod.splits)


section \<open>Keys\<close>

lemma ingestao_unique:
  assumes "ingestao L dir = Inr (c, cl, p, v, l)"
  shows "distinct (column ''id_cliente'' c) \<and> distinct (column ''id_cliente'' cl)
       \<and> distinct (column ''id_produto'' p) \<and> distinct (column ''id_venda'' v)
       \<and> distinct (column ''id_entrega'' l)"
  using ingestao_Inr[OF assms] unique_clean_clientes unique_clean_clientes_lab
    unique_clean_produtos unique_clean_vendas unique_clean_logistica
  unfolding unique_key_def by blast

lemma main_unique:
  assumes "main L w = (Inr (), w')"
  shows "\<exists>c cl p v l.
           data_corrigida w' ''clientes_corrigido.csv'' = Some c
         \<and> distinct (column ''id_cliente'' c)
         \<and> data_corrigida w' ''clientes_lab_corrigido.csv'' = Some cl
         \<and> distinct (column ''id_cliente'' cl)
         \<and> data_corrigida w' ''produtos_corrigido.csv'' = Some p
         \<and> distinct (column ''id_produto'' p)
         \<and> data_corrigida w' ''vendas_corrigido.csv'' = Some v
         \<and> distinct (column ''id_venda'' v)
         \<and> data_corrigida w' ''logistica_corrigido.csv'' = Some l
         \<and> distinct (column ''id_entrega'' l)"
proof -
  obtain c p v0 l0 cl v l w1 w2 w3 w4 w5 where
    a: "processar_dataset L ''clientes'' (Some ''id_cliente'') w = (Inr c, w1)"
       "processar_dataset L ''produtos'' (Some ''id_produto'') w1 = (Inr p, w2)"
       "processar_dataset L ''vendas'' (Some ''id_venda'') w2 = (Inr v0, w3)"
       "processar_dataset L ''logistica'' (Some ''id_entrega'') w3 = (Inr l0, w4)"
       "processar_dataset L ''clientes_lab'' (Some ''id_cliente'') w4 = (Inr cl, w5)"
       "validar_relacionamentos v0 c p = Inr v"
       "corrigir_inconsistencias L v l0 = Inr (v, l)"
       "w' = w5\<lparr>data_corrigida := (data_corrigida w5)
                  (''vendas_corrigido.csv'' \<mapsto> v, ''logistica_corrigido.csv'' \<mapsto> l)\<rparr>"
    using main_Inr[OF assms] by blast
  have u: "distinct (column ''id_cliente'' c)" "distinct (column ''id_produto'' p)"
          "distinct (column ''id_venda'' v0)" "distinct (column ''id_entrega'' l0)"
          "distinct (column ''id_cliente'' cl)"
    using a(1-5) by (auto intro: processar_unique)
  have v: "distinct (column ''id_venda'' v)"
    using u(3) validar_Inr[OF a(6)] by (simp add: column_def distinct_map_filter)
  have l: "distinct (column ''id_entrega'' l)"
    using u(4) corrigir_column[OF a(7), of "''id_entrega''"] by simp
  have f: "data_corrigida w5 ''clientes_corrigido.csv'' = Some c"
          "data_corrigida w5 ''produtos_corrigido.csv'' = Some p"
          "data_corrigida w5 ''clientes_lab_corrigido.csv'' = Some cl"
    using a(1-5) by (auto dest!: processar_Inr)
  show ?thesis
    using u v l f a(8) by simp
qed

text \<open>
  Claim C7. Key uniqueness: when the ingestion run succeeds, each of the five tables it
  writes has no two rows with the same natural key (customers and laboratory customers by
  \<^verbatim>\<open>id_cliente\<close>, products by \<^verbatim>\<open>id_produto\<close>, sales by \<^verbatim>\<open>id_venda\<close>, deliveries by
  \<^verbatim>\<open>id_entrega\<close>); and when the correction run succeeds, the same holds of each of the five
  tables it leaves in its output directory.
\<close>

theorem key_uniqueness:
  "(pipeline_ingestao L w = (Inr (), w') \<longrightarrow>
      (\<exists>c cl p v l.
           data_dir w' ''clientes.csv'' = Some c \<and> distinct (column ''id_cliente'' c)
         \<and> data_dir w' ''clientes_lab.csv'' = Some cl \<and> distinct (column ''id_cliente'' cl)
         \<and> data_dir w' ''produtos.csv'' = Some p \<and> distinct (column ''id_produto'' p)
         \<and> data_dir w' ''vendas.csv'' = Some v \<and> distinct (column ''id_venda'' v)
         \<and> data_dir w' ''logistica.csv'' = Some l \<and> distinct (column ''id_entrega'' l)))
   \<and> (main L w = (Inr (), w'') \<longrightarrow>
      (\<exists>c cl p v l.
           data_corrigida w'' ''clientes_corrigido.csv'' = Some c
         \<and> distinct (column ''id_cliente'' c)
         \<and> data_corrigida w'' ''clientes_lab_corrigido.csv'' = Some cl
         \<and> distinct (column ''id_cliente'' cl)
         \<and> data_corrigida w'' ''produtos_corrigido.csv'' = Some p
         \<and> distinct (column ''id_produto'' p)
         \<and> data_corrigida w'' ''vendas_corrigido.csv'' = Some v
         \<and> distinct (column ''id_venda'' v)
         \<and> data_corrigida w'' ''logistica_corrigido.csv'' = Some l
         \<and> distinct (column ''id_entrega'' l)))"
proof (rule conjI)
  show "pipeline_ingestao L w = (Inr (), w') \<longrightarrow>
      (\<exists>c cl p v l.
           data_dir w' ''clientes.csv'' = Some c \<and> distinct (column ''id_cliente'' c)
         \<and> data_dir w' ''clientes_lab.csv'' = Some cl \<and> distinct (column ''id_cliente'' cl)
         \<and> data_dir w' ''produtos.csv'' = Some p \<and> distinct (column ''id_produto'' p)
         \<and> data_dir w' ''vendas.csv'' = Some v \<and> distinct (column ''id_venda'' v)
         \<and> data_dir w' ''logistica.csv'' = Some l \<and> distinct (column ''id_entrega'' l))"
  proof
    assume "pipeline_ingestao L w = (Inr (), w')"
    then obtain c cl p v l where
      i: "ingestao L (datasets w) = Inr (c, cl, p, v, l)"
      and f: "data_dir w' ''clientes.csv'' = Some c" "data_dir w' ''clientes_lab.csv'' = Some cl"
        "data_dir w' ''produtos.csv'' = Some p" "data_dir w' ''vendas.csv'' = Some v"
        "data_dir w' ''logistica.csv'' = Some l"
      using pipeline_ingestao_Inr by blast
    show "\<exists>c cl p v l.
           data_dir w' ''clientes.csv'' = Some c \<and> distinct (column ''id_cliente'' c)
         \<and> data_dir w' ''clientes_lab.csv'' = Some cl \<and> distinct (column ''id_cliente'' cl)
         \<and> data_dir w' ''produtos.csv'' = Some p \<and> distinct (column ''id_produto'' p)
         \<and> data_dir w' ''vendas.csv'' = Some v \<and> distinct (column ''id_venda'' v)
         \<and> data_dir w' ''logistica.csv'' = Some l \<and> distinct (column ''id_entrega'' l)"
      using ingestao_unique[OF i] f by simp
  qed
next
  show "main L w = (Inr (), w'') \<longrightarrow>
      (\<exists>c cl p v l.
           data_corrigida w'' ''clientes_corrigido.csv'' = Some c
         \<and> distinct (column ''id_cliente'' c)
         \<and> data_corrigida w'' ''clientes_lab_corrigido.csv'' = Some cl
         \<and> distinct (column ''id_cliente'' cl)
         \<and> data_corrigida w'' ''produtos_corrigido.csv'' = Some p
         \<and> distinct (column ''id_produto'' p)
         \<and> data_corrigida w'' ''vendas_corrigido.csv'' = Some v
         \<and> distinct (column ''id_venda'' v)
         \<and> data_corrigida w'' ''logistica_corrigido.csv'' = Some l
         \<and> distinct (column ''id_entrega'' l))"
    using main_unique[of L w w''] by blast
qed

theorem key_uniqueness_witness:
  "fst (pipeline_ingestao exemplo_lib mundo) = Inr ()
   \<and> (\<exists>c v l. data_dir (snd (pipeline_ingestao exemplo_lib mundo)) ''clientes.csv'' = Some c
         \<and> distinct (column ''id_cliente'' c)
         \<and> data_dir (snd (pipeline_ingestao exemplo_lib mundo)) ''vendas.csv'' = Some v
         \<and> distinct (column ''id_venda'' v)
         \<and> data_dir (snd (pipeline_ingestao exemplo_lib mundo)) ''logistica.csv'' = Some l
         \<and> distinct (column ''id_entrega'' l))
   \<and> fst (main exemplo_lib mundo) = Inr ()
   \<and> (\<exists>c v l. data_corrigida (snd (main exemplo_lib mundo)) ''clientes_corrigido.csv'' = Some c
         \<and> distinct (column ''id_cliente'' c)
         \<and> data_corrigida (snd (main exemplo_lib mundo)) ''vendas_corrigido.csv'' = Some v
         \<and> distinct (column ''id_venda'' v)
         \<and> data_corrigida (snd (main exemplo_lib mundo)) ''logistica_corrigido.csv'' = Some l
         \<and> distinct (column ''id_entrega'' l))"
proof -
  have p: "pipeline_ingestao exemplo_lib mundo = (Inr (), snd (pipeline_ingestao exemplo_lib mundo))"
    using pipeline_exemplo by (metis prod.collapse)
  have m: "main exemplo_lib mundo = (Inr (), snd (main exemplo_lib mundo))"
    using main_exemplo(1) by (metis prod.collapse)
  show ?thesis
    using key_uniqueness[of exemplo_lib mundo "snd (pipeline_ingestao exemplo_lib mundo)"
            "snd (main exemplo_lib mundo)"] p m pipeline_exemplo main_exemplo(1)
    by blast
qed

section \<open>Domain invariants\<close>









end
